theory Spec2Isabelle
  imports Complex_Main "HOL-Library.Char_ord" "HOL-Library.List_Lexorder" "HOL-Library.Multiset"
begin

section \<open>Conventions of the embedding\<close>

text \<open>
  The backend is a set of FastAPI route handlers over an SQLAlchemy session. A handler is
  modelled as a function from the request data and the stored tables to either the
  exception it raises (\<open>Inl\<close>) or the tables after \<^verbatim>\<open>db.commit()\<close> (\<open>Inr\<close>). A raise before
  the commit leaves the stored tables as they were, so an \<open>Inl\<close> result carries no new
  state.

  \<^item> A table is the list of its rows; \<^verbatim>\<open>query.filter(...).first()\<close> is \<open>find\<close>,
    \<^verbatim>\<open>.all()\<close> is \<open>filter\<close>, \<^verbatim>\<open>.count()\<close> is the length of the filtered list.
  \<^item> A row has the columns that its class declares in app/models. Where a handler names
    an attribute that the class does not declare, the read raises \<^verbatim>\<open>AttributeError\<close>
    (\<open>missing_attribute\<close>), and what the handler would do with the value is written as the
    continuation of that read.
  \<^item> Python numbers are values of the type \<open>number\<close>: an \<^verbatim>\<open>int\<close>, a \<^verbatim>\<open>float\<close> or a
    \<^verbatim>\<open>Decimal\<close>. Their arithmetic follows Python: an \<^verbatim>\<open>int\<close> mixes with both, a
    \<^verbatim>\<open>float\<close> and a \<^verbatim>\<open>Decimal\<close> do not mix (\<^verbatim>\<open>TypeError\<close>). The value of a \<^verbatim>\<open>float\<close> or a
    \<^verbatim>\<open>Decimal\<close> is an exact rational: representation error is not modelled. An Integer
    column loads as an \<^verbatim>\<open>int\<close>, a Numeric column as a \<^verbatim>\<open>Decimal\<close>; a \<^verbatim>\<open>float\<close> field of a
    request is a \<^verbatim>\<open>float\<close>.
  \<^item> Whether the session flushes pending writes before a query is the \<open>autoflush\<close>
    argument of the one handler that queries after it writes. The session factory of the
    application (app/db/database.py) is outside the sources modelled here; the factory of
    tests/conftest.py sets \<^verbatim>\<open>autoflush=False\<close>.
  \<^item> The commit raises \<^verbatim>\<open>IntegrityError\<close> on a repeated primary key or a repeated value of
    a UNIQUE column, and \<^verbatim>\<open>OverflowError\<close> on an integer outside 64 bits, as the SQLite
    engine of tests/conftest.py does. Foreign keys are not checked.
  \<^item> UUIDs and timestamps are natural numbers; the clock and the fresh row id are
    arguments of the handler.
  \<^item> Record fields carry a short prefix of their table, since the same column name occurs
    in several tables.
\<close>

type_synonym uuid = nat
type_synonym datetime = nat

fun update_first :: "('a \<Rightarrow> bool) \<Rightarrow> ('a \<Rightarrow> 'a) \<Rightarrow> 'a list \<Rightarrow> 'a list" where
  "update_first P f [] = []"
| "update_first P f (x # xs) = (if P x then f x # xs else x # update_first P f xs)"

subsection \<open>Rendering integers, as \<^verbatim>\<open>str\<close> and f-strings do\<close>

definition digit_char :: "nat \<Rightarrow> char" where
  "digit_char d = ''0123456789'' ! d"

fun digits :: "nat \<Rightarrow> string" where
  "digits n = (if n < 10 then [digit_char n] else digits (n div 10) @ [digit_char (n mod 10)])"

declare digits.simps [simp del]

definition str_int :: "int \<Rightarrow> string" where
  "str_int i = (if i < 0 then CHR ''-'' # digits (nat (- i)) else digits (nat i))"

subsection \<open>Exceptions (app/utils/exceptions.py, fastapi, Python and the database driver)\<close>

datatype val = IntV int | StrV string

datatype error =
    HTTPException nat string
  | ValidationError string string val
  | BusinessLogicError string string "(string \<times> val) list"
  | ValueError
  | AttributeError string string
  | TypeError
  | ZeroDivisionError
  | OverflowError
  | IntegrityError

text \<open>
  \<open>HTTPException status_code detail\<close>; \<open>ValidationError message field value\<close>;
  \<open>BusinessLogicError message error_code details\<close>, the details dictionary as an
  association list; \<open>ValueError\<close> is what \<^verbatim>\<open>int()\<close> raises on a string that is not a number;
  \<open>AttributeError class attribute\<close> is a read of an attribute that the class does not
  have; \<open>TypeError\<close> is an operation between a \<^verbatim>\<open>float\<close> and a \<^verbatim>\<open>Decimal\<close>, or a keyword
  that a constructor does not know; \<open>OverflowError\<close> is an integer that the driver cannot
  bind; \<open>IntegrityError\<close> is a violated key or UNIQUE constraint at the commit.
\<close>

definition bind :: "error + 'a \<Rightarrow> ('a \<Rightarrow> error + 'b) \<Rightarrow> error + 'b" where
  "bind r f = (case r of Inl e \<Rightarrow> Inl e | Inr x \<Rightarrow> f x)"

definition missing_attribute :: "string \<Rightarrow> string \<Rightarrow> error + 'a" where
  "missing_attribute class_name attribute = Inl (AttributeError class_name attribute)"

subsection \<open>Python numbers\<close>

datatype number = PyInt int | PyFloat rat | PyDecimal rat

fun num_value :: "number \<Rightarrow> rat" where
  "num_value (PyInt i) = of_int i"
| "num_value (PyFloat x) = x"
| "num_value (PyDecimal x) = x"

text \<open>
  \<^verbatim>\<open>a + b\<close>, \<^verbatim>\<open>a - b\<close> and \<^verbatim>\<open>a * b\<close>, given the operation on integers and on rationals:
  two \<^verbatim>\<open>int\<close>s give an \<^verbatim>\<open>int\<close>, an \<^verbatim>\<open>int\<close> takes the type of the other operand, a
  \<^verbatim>\<open>float\<close> with a \<^verbatim>\<open>Decimal\<close> is an unsupported operand pair.
\<close>

fun arith :: "(int \<Rightarrow> int \<Rightarrow> int) \<Rightarrow> (rat \<Rightarrow> rat \<Rightarrow> rat) \<Rightarrow> number \<Rightarrow> number \<Rightarrow> error + number" where
  "arith f g (PyInt a) (PyInt b) = Inr (PyInt (f a b))"
| "arith f g (PyInt a) (PyFloat b) = Inr (PyFloat (g (of_int a) b))"
| "arith f g (PyFloat a) (PyInt b) = Inr (PyFloat (g a (of_int b)))"
| "arith f g (PyFloat a) (PyFloat b) = Inr (PyFloat (g a b))"
| "arith f g (PyInt a) (PyDecimal b) = Inr (PyDecimal (g (of_int a) b))"
| "arith f g (PyDecimal a) (PyInt b) = Inr (PyDecimal (g a (of_int b)))"
| "arith f g (PyDecimal a) (PyDecimal b) = Inr (PyDecimal (g a b))"
| "arith f g (PyFloat a) (PyDecimal b) = Inl TypeError"
| "arith f g (PyDecimal a) (PyFloat b) = Inl TypeError"

definition py_add :: "number \<Rightarrow> number \<Rightarrow> error + number" where
  "py_add = arith (+) (+)"

definition py_sub :: "number \<Rightarrow> number \<Rightarrow> error + number" where
  "py_sub = arith (-) (-)"

definition py_mul :: "number \<Rightarrow> number \<Rightarrow> error + number" where
  "py_mul = arith (*) (*)"

text \<open>
  \<^verbatim>\<open>a / b\<close>: true division; two \<^verbatim>\<open>int\<close>s give a \<^verbatim>\<open>float\<close>. A zero divisor raises; the
  exceptions of \<^verbatim>\<open>decimal\<close> for a zero divisor are not told apart from
  \<^verbatim>\<open>ZeroDivisionError\<close>.
\<close>

fun py_truediv :: "number \<Rightarrow> number \<Rightarrow> error + number" where
  "py_truediv (PyFloat a) (PyDecimal b) = Inl TypeError"
| "py_truediv (PyDecimal a) (PyFloat b) = Inl TypeError"
| "py_truediv a b =
    (if num_value b = 0 then Inl ZeroDivisionError
     else case (a, b) of
         (PyDecimal x, _) \<Rightarrow> Inr (PyDecimal (x / num_value b))
       | (_, PyDecimal y) \<Rightarrow> Inr (PyDecimal (num_value a / y))
       | _ \<Rightarrow> Inr (PyFloat (num_value a / num_value b)))"

text \<open>
  \<^verbatim>\<open>sum(generator)\<close>: the items are computed and added from the left, starting at the
  \<^verbatim>\<open>int\<close> 0; the first item or addition that raises ends the sum.
\<close>

fun py_sum_from :: "number \<Rightarrow> (error + number) list \<Rightarrow> error + number" where
  "py_sum_from acc [] = Inr acc"
| "py_sum_from acc (Inl e # items) = Inl e"
| "py_sum_from acc (Inr x # items) = bind (py_add acc x) (\<lambda>acc'. py_sum_from acc' items)"

definition py_sum :: "(error + number) list \<Rightarrow> error + number" where
  "py_sum items = py_sum_from (PyInt 0) items"

text \<open>
  What an Integer and a Numeric(10, 2) column keep of an assigned number: the nearest
  integer, and the nearest multiple of 0.01. Both occur only after a read that raises on
  every call, so no result of a handler depends on them.
\<close>

definition integer_column :: "number \<Rightarrow> int" where
  "integer_column n = round (num_value n)"

definition round_2dp :: "rat \<Rightarrow> rat" where
  "round_2dp x = of_int (round (x * 100)) / 100"

definition numeric_column :: "number \<Rightarrow> rat" where
  "numeric_column n = round_2dp (num_value n)"

section \<open>Data model (app/models, app/schemas)\<close>

text \<open>
  Rows of the stock tables and the body of a stock-move request. \<^verbatim>\<open>Product\<close> derives from
  \<^verbatim>\<open>Base\<close>, not from \<^verbatim>\<open>BaseModel\<close>: its columns are id, name, sku, category,
  unit_of_measure, unit_cost, stock_quantity, reorder_level, description and is_active,
  and it has no \<^verbatim>\<open>deleted_at\<close>. The request declares quantity and unit_cost as
  \<^verbatim>\<open>float\<close>.
\<close>

record product =
  product_id :: uuid
  product_name :: string
  product_unit_cost :: rat
  stock_quantity :: int

record stock_move_type =
  smt_id :: uuid
  smt_name :: string

record location =
  location_id :: uuid
  location_deleted_at :: "datetime option"

record stock_move =
  sm_id :: uuid
  sm_product_id :: uuid
  sm_move_type_id :: uuid
  sm_quantity :: int
  sm_unit_cost :: rat
  sm_reference_id :: "uuid option"
  sm_reference_type :: "string option"
  sm_location_id :: uuid
  sm_notes :: "string option"
  sm_created_by_id :: uuid

record StockMoveCreate =
  smc_product_id :: uuid
  smc_move_type_id :: uuid
  smc_quantity :: rat
  smc_unit_cost :: rat
  smc_reference_id :: "uuid option"
  smc_reference_type :: "string option"
  smc_location_id :: uuid
  smc_notes :: "string option"

text \<open>
  Bills of materials. Quantities, unit costs and hourly rates are Numeric columns
  (\<^verbatim>\<open>Decimal\<close>), durations and setup times Integer columns.
\<close>

record work_center =
  wc_id :: uuid
  wc_deleted_at :: "datetime option"

record bom =
  bom_id :: uuid
  bom_total_cost :: rat
  bom_deleted_at :: "datetime option"

record bom_component =
  bc_id :: uuid
  bc_bom_id :: uuid
  bc_product_id :: uuid
  bc_quantity :: rat
  bc_unit_cost :: rat
  bc_deleted_at :: "datetime option"
  bc_created_by_id :: "uuid option"
  bc_updated_by_id :: "uuid option"

record bom_operation =
  bo_id :: uuid
  bo_bom_id :: uuid
  bo_work_center_id :: uuid
  bo_sequence :: int
  bo_description :: string
  bo_duration :: int
  bo_setup_time :: int
  bo_cost_per_hour :: rat
  bo_deleted_at :: "datetime option"
  bo_created_by_id :: "uuid option"
  bo_updated_by_id :: "uuid option"

record BOMOperationCreate =
  boc_work_center_id :: uuid
  boc_sequence :: int
  boc_description :: string
  boc_duration :: int
  boc_setup_time :: int
  boc_cost_per_hour :: rat

text \<open>
  Orders, their statuses and users. \<^verbatim>\<open>WorkOrder\<close> declares work_order_number,
  manufacturing_order_id, bom_operation_id, status_id, assigned_operator_id,
  planned_duration, actual_duration, start_time, end_time, comments and issues, next to the
  columns of \<^verbatim>\<open>BaseModel\<close>; it declares no order_number, assigned_to_id, notes,
  actual_start_date or actual_end_date, the names that work_orders.py uses.
\<close>

record order_status =
  os_id :: uuid
  os_name :: string

record user_role =
  role_name :: string

record user =
  user_id :: uuid
  role :: "user_role option"

record manufacturing_order =
  mo_id :: uuid
  mo_order_number :: string
  mo_product_id :: uuid
  mo_bom_id :: uuid
  mo_quantity :: int
  mo_status_id :: uuid
  mo_priority_id :: uuid
  mo_planned_start_date :: datetime
  mo_planned_end_date :: datetime
  mo_actual_end_date :: "datetime option"
  mo_assigned_to_id :: "uuid option"
  mo_notes :: "string option"
  mo_created_by_id :: "uuid option"
  mo_updated_by_id :: "uuid option"
  mo_deleted_at :: "datetime option"

record ManufacturingOrderCreate =
  moc_product_id :: uuid
  moc_bom_id :: uuid
  moc_quantity :: int
  moc_status_id :: uuid
  moc_priority_id :: uuid
  moc_planned_start_date :: datetime
  moc_planned_end_date :: datetime
  moc_assigned_to_id :: "uuid option"
  moc_notes :: "string option"

record work_order =
  wo_id :: uuid
  wo_work_order_number :: string
  wo_manufacturing_order_id :: uuid
  wo_bom_operation_id :: uuid
  wo_status_id :: uuid
  wo_assigned_operator_id :: "uuid option"
  wo_planned_duration :: int
  wo_actual_duration :: "int option"
  wo_start_time :: "datetime option"
  wo_end_time :: "datetime option"
  wo_comments :: "string option"
  wo_issues :: "string option"
  wo_created_by_id :: "uuid option"
  wo_updated_by_id :: "uuid option"
  wo_deleted_at :: "datetime option"

record WorkOrderCreate =
  woc_manufacturing_order_id :: uuid
  woc_operation_id :: uuid
  woc_work_center_id :: uuid
  woc_status_id :: uuid
  woc_planned_duration :: rat
  woc_planned_start_date :: datetime
  woc_planned_end_date :: datetime
  woc_assigned_to_id :: "uuid option"
  woc_notes :: "string option"

record WorkOrderStatusUpdate =
  su_status_id :: uuid
  su_actual_start_date :: "datetime option"
  su_actual_end_date :: "datetime option"
  su_actual_duration :: "rat option"
  su_notes :: "string option"

text \<open>The tables a session reads and writes.\<close>

record database =
  products :: "product list"
  stock_move_types :: "stock_move_type list"
  locations :: "location list"
  stock_moves :: "stock_move list"
  work_centers :: "work_center list"
  boms :: "bom list"
  bom_components :: "bom_component list"
  bom_operations :: "bom_operation list"
  order_statuses :: "order_status list"
  manufacturing_orders :: "manufacturing_order list"
  work_orders :: "work_order list"

definition empty_db :: database where
  "empty_db = \<lparr>products = [], stock_move_types = [], locations = [], stock_moves = [],
     work_centers = [], boms = [], bom_components = [], bom_operations = [],
     order_statuses = [], manufacturing_orders = [], work_orders = []\<rparr>"

section \<open>Stock ledger (app/api/routes/stock.py)\<close>

text \<open>
  Lines 86 to 101 of \<^verbatim>\<open>create_stock_move\<close>: the values of \<^verbatim>\<open>product.stock_quantity\<close> and
  \<^verbatim>\<open>product.unit_cost\<close> after the update by the name of the move type. The loaded stock is an
  \<^verbatim>\<open>int\<close> and the loaded cost a \<^verbatim>\<open>Decimal\<close>; the quantity and the unit cost of the request
  are \<^verbatim>\<open>float\<close>s. A move type of any other name changes nothing.
\<close>

definition update_product_stock ::
  "string \<Rightarrow> StockMoveCreate \<Rightarrow> product \<Rightarrow> error + number \<times> number" where
  "update_product_stock move_type_name stock_move_data product =
    (let stock = PyInt (stock_quantity product);
         cost = PyDecimal (product_unit_cost product);
         quantity = PyFloat (smc_quantity stock_move_data);
         unit_cost = PyFloat (smc_unit_cost stock_move_data)
     in if move_type_name = ''Receipt'' then
          bind (py_add stock quantity) (\<lambda>stock.
            if 0 < num_value stock then
              bind (py_sub stock quantity) (\<lambda>old_stock.
              bind (py_mul old_stock cost) (\<lambda>old_value.
              bind (py_mul quantity unit_cost) (\<lambda>move_value.
              bind (py_add old_value move_value) (\<lambda>total_value.
              bind (py_truediv total_value stock) (\<lambda>cost. Inr (stock, cost))))))
            else Inr (stock, cost))
        else if move_type_name = ''Issue'' then
          if num_value stock < num_value quantity
          then Inl (HTTPException 400
                 (''Insufficient stock for product '' @ product_name product
                  @ ''. Available: '' @ str_int (stock_quantity product)))
          else bind (py_sub stock quantity) (\<lambda>stock. Inr (stock, cost))
        else if move_type_name = ''Adjustment'' then
          bind (py_add stock quantity) (\<lambda>stock. Inr (stock, cost))
        else Inr (stock, cost))"

text \<open>
  The handler. Its first query filters on \<^verbatim>\<open>Product.deleted_at\<close>, which \<^verbatim>\<open>Product\<close> does
  not declare: building the filter raises, before anything is read.
\<close>

definition create_stock_move ::
  "StockMoveCreate \<Rightarrow> uuid \<Rightarrow> uuid \<Rightarrow> database \<Rightarrow> error + database" where
  "create_stock_move stock_move_data current_user_id new_id db =
    bind (missing_attribute ''Product'' ''deleted_at'')
      (\<lambda>deleted_at :: product \<Rightarrow> datetime option.
    (case find (\<lambda>p. product_id p = smc_product_id stock_move_data
                     \<and> deleted_at p = None) (products db) of
       None \<Rightarrow> Inl (HTTPException 404 ''Product not found'')
     | Some product \<Rightarrow>
    (case find (\<lambda>t. smt_id t = smc_move_type_id stock_move_data) (stock_move_types db) of
       None \<Rightarrow> Inl (HTTPException 404 ''Stock move type not found'')
     | Some move_type \<Rightarrow>
    (case find (\<lambda>l. location_id l = smc_location_id stock_move_data
                     \<and> location_deleted_at l = None) (locations db) of
       None \<Rightarrow> Inl (HTTPException 404 ''Location not found'')
     | Some location \<Rightarrow>
       let new_stock_move = \<lparr>sm_id = new_id,
             sm_product_id = smc_product_id stock_move_data,
             sm_move_type_id = smc_move_type_id stock_move_data,
             sm_quantity = integer_column (PyFloat (smc_quantity stock_move_data)),
             sm_unit_cost = numeric_column (PyFloat (smc_unit_cost stock_move_data)),
             sm_reference_id = smc_reference_id stock_move_data,
             sm_reference_type = smc_reference_type stock_move_data,
             sm_location_id = smc_location_id stock_move_data,
             sm_notes = smc_notes stock_move_data,
             sm_created_by_id = current_user_id\<rparr>
       in bind (update_product_stock (smt_name move_type) stock_move_data product)
            (\<lambda>(stock, cost).
               Inr (db\<lparr>products := update_first
                          (\<lambda>p. product_id p = smc_product_id stock_move_data
                               \<and> deleted_at p = None)
                          (\<lambda>p. p\<lparr>stock_quantity := integer_column stock,
                                 product_unit_cost := numeric_column cost\<rparr>)
                          (products db),
                        stock_moves := stock_moves db @ [new_stock_move]\<rparr>))))))"

text \<open>
  \<^verbatim>\<open>validate_stock_availability\<close> of app/utils/exceptions.py. No route calls it.
\<close>

definition validate_stock_availability :: "string \<Rightarrow> int \<Rightarrow> int \<Rightarrow> error + unit" where
  "validate_stock_availability product_id' required_quantity available_quantity =
    (if available_quantity < required_quantity
     then Inl (BusinessLogicError
            (''Insufficient stock. Required: '' @ str_int required_quantity
             @ '', Available: '' @ str_int available_quantity)
            ''INSUFFICIENT_STOCK''
            [(''product_id'', StrV product_id'),
             (''required_quantity'', IntV required_quantity),
             (''available_quantity'', IntV available_quantity)])
     else Inr ())"

section \<open>Permission evaluator (app/utils/rbac.py)\<close>

datatype Permission =
    CREATE_USER | READ_USER | UPDATE_USER | DELETE_USER
  | CREATE_PRODUCT | READ_PRODUCT | UPDATE_PRODUCT | DELETE_PRODUCT
  | CREATE_BOM | READ_BOM | UPDATE_BOM | DELETE_BOM
  | CREATE_WORK_CENTER | READ_WORK_CENTER | UPDATE_WORK_CENTER | DELETE_WORK_CENTER
  | CREATE_MANUFACTURING_ORDER | READ_MANUFACTURING_ORDER | UPDATE_MANUFACTURING_ORDER
  | DELETE_MANUFACTURING_ORDER | APPROVE_MANUFACTURING_ORDER
  | CREATE_WORK_ORDER | READ_WORK_ORDER | UPDATE_WORK_ORDER | DELETE_WORK_ORDER
  | START_WORK_ORDER | PAUSE_WORK_ORDER | COMPLETE_WORK_ORDER
  | CREATE_STOCK_MOVE | READ_STOCK_MOVE | UPDATE_STOCK_MOVE | DELETE_STOCK_MOVE
  | READ_REPORTS | EXPORT_REPORTS | READ_ANALYTICS
  | MANAGE_ROLES | MANAGE_SYSTEM | VIEW_AUDIT_LOGS

text \<open>\<^verbatim>\<open>permission.value\<close>: the string of a member of the enumeration.\<close>

fun permission_value :: "Permission \<Rightarrow> string" where
  "permission_value CREATE_USER = ''create_user''"
| "permission_value READ_USER = ''read_user''"
| "permission_value UPDATE_USER = ''update_user''"
| "permission_value DELETE_USER = ''delete_user''"
| "permission_value CREATE_PRODUCT = ''create_product''"
| "permission_value READ_PRODUCT = ''read_product''"
| "permission_value UPDATE_PRODUCT = ''update_product''"
| "permission_value DELETE_PRODUCT = ''delete_product''"
| "permission_value CREATE_BOM = ''create_bom''"
| "permission_value READ_BOM = ''read_bom''"
| "permission_value UPDATE_BOM = ''update_bom''"
| "permission_value DELETE_BOM = ''delete_bom''"
| "permission_value CREATE_WORK_CENTER = ''create_work_center''"
| "permission_value READ_WORK_CENTER = ''read_work_center''"
| "permission_value UPDATE_WORK_CENTER = ''update_work_center''"
| "permission_value DELETE_WORK_CENTER = ''delete_work_center''"
| "permission_value CREATE_MANUFACTURING_ORDER = ''create_manufacturing_order''"
| "permission_value READ_MANUFACTURING_ORDER = ''read_manufacturing_order''"
| "permission_value UPDATE_MANUFACTURING_ORDER = ''update_manufacturing_order''"
| "permission_value DELETE_MANUFACTURING_ORDER = ''delete_manufacturing_order''"
| "permission_value APPROVE_MANUFACTURING_ORDER = ''approve_manufacturing_order''"
| "permission_value CREATE_WORK_ORDER = ''create_work_order''"
| "permission_value READ_WORK_ORDER = ''read_work_order''"
| "permission_value UPDATE_WORK_ORDER = ''update_work_order''"
| "permission_value DELETE_WORK_ORDER = ''delete_work_order''"
| "permission_value START_WORK_ORDER = ''start_work_order''"
| "permission_value PAUSE_WORK_ORDER = ''pause_work_order''"
| "permission_value COMPLETE_WORK_ORDER = ''complete_work_order''"
| "permission_value CREATE_STOCK_MOVE = ''create_stock_move''"
| "permission_value READ_STOCK_MOVE = ''read_stock_move''"
| "permission_value UPDATE_STOCK_MOVE = ''update_stock_move''"
| "permission_value DELETE_STOCK_MOVE = ''delete_stock_move''"
| "permission_value READ_REPORTS = ''read_reports''"
| "permission_value EXPORT_REPORTS = ''export_reports''"
| "permission_value READ_ANALYTICS = ''read_analytics''"
| "permission_value MANAGE_ROLES = ''manage_roles''"
| "permission_value MANAGE_SYSTEM = ''manage_system''"
| "permission_value VIEW_AUDIT_LOGS = ''view_audit_logs''"

text \<open>Iterating the enumeration yields its members in the order of their definition.\<close>

definition all_permissions :: "Permission list" where
  "all_permissions =
    [CREATE_USER, READ_USER, UPDATE_USER, DELETE_USER,
     CREATE_PRODUCT, READ_PRODUCT, UPDATE_PRODUCT, DELETE_PRODUCT,
     CREATE_BOM, READ_BOM, UPDATE_BOM, DELETE_BOM,
     CREATE_WORK_CENTER, READ_WORK_CENTER, UPDATE_WORK_CENTER, DELETE_WORK_CENTER,
     CREATE_MANUFACTURING_ORDER, READ_MANUFACTURING_ORDER, UPDATE_MANUFACTURING_ORDER,
     DELETE_MANUFACTURING_ORDER, APPROVE_MANUFACTURING_ORDER,
     CREATE_WORK_ORDER, READ_WORK_ORDER, UPDATE_WORK_ORDER, DELETE_WORK_ORDER,
     START_WORK_ORDER, PAUSE_WORK_ORDER, COMPLETE_WORK_ORDER,
     CREATE_STOCK_MOVE, READ_STOCK_MOVE, UPDATE_STOCK_MOVE, DELETE_STOCK_MOVE,
     READ_REPORTS, EXPORT_REPORTS, READ_ANALYTICS,
     MANAGE_ROLES, MANAGE_SYSTEM, VIEW_AUDIT_LOGS]"

definition ROLE_PERMISSIONS :: "string \<rightharpoonup> string list" where
  "ROLE_PERMISSIONS = map_of
    [(''Admin'', map permission_value all_permissions),
     (''ManufacturingManager'', map permission_value
        [CREATE_MANUFACTURING_ORDER, READ_MANUFACTURING_ORDER, UPDATE_MANUFACTURING_ORDER,
         DELETE_MANUFACTURING_ORDER, APPROVE_MANUFACTURING_ORDER,
         CREATE_WORK_ORDER, READ_WORK_ORDER, UPDATE_WORK_ORDER, DELETE_WORK_ORDER,
         START_WORK_ORDER, PAUSE_WORK_ORDER, COMPLETE_WORK_ORDER,
         CREATE_PRODUCT, READ_PRODUCT, UPDATE_PRODUCT, DELETE_PRODUCT,
         CREATE_BOM, READ_BOM, UPDATE_BOM, DELETE_BOM,
         CREATE_WORK_CENTER, READ_WORK_CENTER, UPDATE_WORK_CENTER, DELETE_WORK_CENTER,
         CREATE_STOCK_MOVE, READ_STOCK_MOVE, UPDATE_STOCK_MOVE, DELETE_STOCK_MOVE,
         READ_REPORTS, EXPORT_REPORTS, READ_ANALYTICS, READ_USER]),
     (''Operator'', map permission_value
        [READ_MANUFACTURING_ORDER, READ_WORK_ORDER, UPDATE_WORK_ORDER, START_WORK_ORDER,
         PAUSE_WORK_ORDER, COMPLETE_WORK_ORDER, READ_PRODUCT, READ_BOM, READ_WORK_CENTER,
         READ_STOCK_MOVE, CREATE_STOCK_MOVE]),
     (''InventoryManager'', map permission_value
        [READ_PRODUCT, UPDATE_PRODUCT, CREATE_STOCK_MOVE, READ_STOCK_MOVE, UPDATE_STOCK_MOVE,
         DELETE_STOCK_MOVE, READ_MANUFACTURING_ORDER, READ_WORK_ORDER, READ_REPORTS,
         EXPORT_REPORTS])]"

text \<open>\<^verbatim>\<open>ROLE_PERMISSIONS.get(role_name, [])\<close>.\<close>

definition get_role_permissions :: "string \<Rightarrow> string list" where
  "get_role_permissions role_name' =
     (case ROLE_PERMISSIONS role_name' of None \<Rightarrow> [] | Some ps \<Rightarrow> ps)"

definition has_permission :: "user \<Rightarrow> Permission \<Rightarrow> bool" where
  "has_permission user' permission =
    (case role user' of
       None \<Rightarrow> False
     | Some r \<Rightarrow> permission_value permission \<in> set (get_role_permissions (role_name r)))"

section \<open>BOM cost roll-up (app/api/routes/bom.py)\<close>

text \<open>
  \<^verbatim>\<open>calculate_bom_cost_detailed\<close>. A component term is a \<^verbatim>\<open>Decimal\<close> times a \<^verbatim>\<open>Decimal\<close>. An
  operation term is \<^verbatim>\<open>(duration + setup_time) / 60\<close>, an \<^verbatim>\<open>int\<close> divided by an \<^verbatim>\<open>int\<close>,
  that is a \<^verbatim>\<open>float\<close>, times \<^verbatim>\<open>cost_per_hour\<close>, a \<^verbatim>\<open>Decimal\<close>.
\<close>

definition calculate_bom_cost_detailed ::
  "database \<Rightarrow> uuid \<Rightarrow> error + number \<times> number \<times> number \<times> nat \<times> nat" where
  "calculate_bom_cost_detailed db bom_id' =
    (let components = filter (\<lambda>c. bc_bom_id c = bom_id' \<and> bc_deleted_at c = None)
                        (bom_components db)
     in bind (py_sum (map (\<lambda>component.
                py_mul (PyDecimal (bc_quantity component)) (PyDecimal (bc_unit_cost component)))
                components)) (\<lambda>material_cost.
        let component_count = length components;
            operations = filter (\<lambda>operation. bo_bom_id operation = bom_id'
                                   \<and> bo_deleted_at operation = None) (bom_operations db)
        in bind (py_sum (map (\<lambda>operation.
                   bind (py_add (PyInt (bo_duration operation))
                                (PyInt (bo_setup_time operation))) (\<lambda>minutes.
                   bind (py_truediv minutes (PyInt 60)) (\<lambda>hours.
                   py_mul hours (PyDecimal (bo_cost_per_hour operation)))))
                   operations)) (\<lambda>labor_cost.
           let operation_count = length operations
           in bind (py_add material_cost labor_cost) (\<lambda>total_cost.
              Inr (material_cost, labor_cost, total_cost,
                   component_count, operation_count)))))"

text \<open>The value of the material sum: an \<^verbatim>\<open>int\<close> 0 over no component, else a \<^verbatim>\<open>Decimal\<close>.\<close>

definition material_sum :: "bom_component list \<Rightarrow> number" where
  "material_sum cs =
     (if cs = [] then PyInt 0 else PyDecimal (\<Sum>c\<leftarrow>cs. bc_quantity c * bc_unit_cost c))"

definition calculate_bom_cost :: "database \<Rightarrow> uuid \<Rightarrow> error + number" where
  "calculate_bom_cost db bom_id' =
    bind (calculate_bom_cost_detailed db bom_id')
      (\<lambda>(material_cost, labor_cost, total_cost, _, _). Inr total_cost)"

text \<open>
  \<^verbatim>\<open>create_bom_operation\<close> and \<^verbatim>\<open>delete_bom_operation\<close>. Neither assigns
  \<^verbatim>\<open>bom.total_cost\<close>. The request schema admits a \<^verbatim>\<open>cost_per_hour\<close> of at most two decimal
  places, which the Numeric(10, 2) column stores as it is.
\<close>

definition create_bom_operation ::
  "uuid \<Rightarrow> BOMOperationCreate \<Rightarrow> uuid \<Rightarrow> uuid \<Rightarrow> database \<Rightarrow> error + database" where
  "create_bom_operation bom_id' operation_data current_user_id new_id db =
    (case find (\<lambda>b. bom_id b = bom_id' \<and> bom_deleted_at b = None) (boms db) of
       None \<Rightarrow> Inl (HTTPException 404 ''BOM not found'')
     | Some bom' \<Rightarrow>
    (case find (\<lambda>w. wc_id w = boc_work_center_id operation_data \<and> wc_deleted_at w = None)
            (work_centers db) of
       None \<Rightarrow> Inl (HTTPException 404 ''Work center not found'')
     | Some work_center \<Rightarrow>
       let new_operation = \<lparr>bo_id = new_id, bo_bom_id = bom_id',
             bo_work_center_id = boc_work_center_id operation_data,
             bo_sequence = boc_sequence operation_data,
             bo_description = boc_description operation_data,
             bo_duration = boc_duration operation_data,
             bo_setup_time = boc_setup_time operation_data,
             bo_cost_per_hour = boc_cost_per_hour operation_data,
             bo_deleted_at = None,
             bo_created_by_id = Some current_user_id, bo_updated_by_id = None\<rparr>
       in Inr (db\<lparr>bom_operations := bom_operations db @ [new_operation]\<rparr>)))"

definition delete_bom_operation ::
  "uuid \<Rightarrow> uuid \<Rightarrow> uuid \<Rightarrow> datetime \<Rightarrow> database \<Rightarrow> error + database" where
  "delete_bom_operation bom_id' operation_id current_user_id utcnow db =
    (let this = (\<lambda>operation. bo_id operation = operation_id \<and> bo_bom_id operation = bom_id'
                   \<and> bo_deleted_at operation = None)
     in case find this (bom_operations db) of
       None \<Rightarrow> Inl (HTTPException 404 ''BOM operation not found'')
     | Some operation \<Rightarrow>
       Inr (db\<lparr>bom_operations := update_first this
              (\<lambda>operation. operation\<lparr>bo_deleted_at := Some utcnow,
                 bo_updated_by_id := Some current_user_id\<rparr>) (bom_operations db)\<rparr>))"

text \<open>The stored total of a BOM, as a later request reads it.\<close>

definition stored_total_cost :: "uuid \<Rightarrow> database \<Rightarrow> rat option" where
  "stored_total_cost bom_id' db =
     map_option bom_total_cost
       (find (\<lambda>b. bom_id b = bom_id' \<and> bom_deleted_at b = None) (boms db))"

text \<open>
  The roll-up as the specification words it (section 4.2), to compare the handlers with:
  components as pairs of quantity and unit cost, operations as triples of duration, setup
  time and hourly rate; the material cost rounded to two decimal places at the sum.
\<close>

definition rollUp :: "(rat \<times> rat) list \<Rightarrow> (int \<times> int \<times> rat) list \<Rightarrow> rat \<times> rat \<times> rat" where
  "rollUp components operations =
    (let materialCost = round_2dp (\<Sum>(quantity, unit_cost)\<leftarrow>components. quantity * unit_cost);
         laborCost = (\<Sum>(duration, setup_time, cost_per_hour)\<leftarrow>operations.
                        of_int (duration + setup_time) / 60 * cost_per_hour)
     in (materialCost, laborCost, materialCost + laborCost))"

text \<open>The roll-up of the specification over the rows of a BOM that are not soft-deleted.\<close>

definition rollUp_of_rows :: "database \<Rightarrow> uuid \<Rightarrow> rat \<times> rat \<times> rat" where
  "rollUp_of_rows db bom_id' =
     rollUp
       (map (\<lambda>c. (bc_quantity c, bc_unit_cost c))
          (filter (\<lambda>c. bc_bom_id c = bom_id' \<and> bc_deleted_at c = None) (bom_components db)))
       (map (\<lambda>x. (bo_duration x, bo_setup_time x, bo_cost_per_hour x))
          (filter (\<lambda>x. bo_bom_id x = bom_id' \<and> bo_deleted_at x = None) (bom_operations db)))"

section \<open>Order numbering (manufacturing_orders.py and work_orders.py)\<close>

text \<open>
  \<^verbatim>\<open>order_number.like(f"MO-{today}-%")\<close>: \<open>today\<close> is the output of
  \<^verbatim>\<open>strftime("%Y%m%d")\<close> and the prefix is a literal, so the pattern has no wildcard
  before its final \<^verbatim>\<open>%\<close> and matches the strings that start with what precedes it.
  Letters are compared as they are; the numbers that the handlers store are in upper case.
\<close>

definition like_prefix :: "string \<Rightarrow> string \<Rightarrow> bool" where
  "like_prefix pattern s = (take (length pattern) s = pattern)"

text \<open>\<^verbatim>\<open>s.split("-")[-1]\<close>: what follows the last hyphen, or all of \<open>s\<close> if it has none.\<close>

definition split_last :: "string \<Rightarrow> string" where
  "split_last s = rev (takeWhile (\<lambda>c. c \<noteq> CHR ''-'') (rev s))"

text \<open>
  \<^verbatim>\<open>int(s)\<close> on a string without a hyphen, as \<open>split_last\<close> returns it: blanks around the
  number are dropped, a plus sign may lead, and the digits may be separated by single
  underscores; anything else raises \<^verbatim>\<open>ValueError\<close>. Characters are bytes here, so the
  digits are the ASCII ones.
\<close>

definition is_digit :: "char \<Rightarrow> bool" where
  "is_digit c = (48 \<le> (of_char c :: nat) \<and> (of_char c :: nat) \<le> 57)"

definition digit_value :: "char \<Rightarrow> nat" where
  "digit_value c = of_char c - 48"

definition is_space :: "char \<Rightarrow> bool" where
  "is_space c = ((9 \<le> (of_char c :: nat) \<and> (of_char c :: nat) \<le> 13)
                 \<or> (28 \<le> (of_char c :: nat) \<and> (of_char c :: nat) \<le> 32))"

definition strip :: "string \<Rightarrow> string" where
  "strip s = rev (dropWhile is_space (rev (dropWhile is_space s)))"

fun drop_plus :: "string \<Rightarrow> string" where
  "drop_plus [] = []"
| "drop_plus (c # cs) = (if c = CHR ''+'' then cs else c # cs)"

fun digit_part :: "string \<Rightarrow> bool" where
  "digit_part [] = False"
| "digit_part [c] = is_digit c"
| "digit_part (c # d # cs) =
     (is_digit c \<and> (if d = CHR ''_'' then digit_part cs else digit_part (d # cs)))"

definition parse_digits :: "nat \<Rightarrow> string \<Rightarrow> nat" where
  "parse_digits a s = foldl (\<lambda>acc c. 10 * acc + digit_value c) a s"

definition int_of_str :: "string \<Rightarrow> nat option" where
  "int_of_str s =
     (let t = drop_plus (strip s)
      in if digit_part t then Some (parse_digits 0 (filter (\<lambda>c. c \<noteq> CHR ''_'') t))
         else None)"

text \<open>\<^verbatim>\<open>f"{n:04d}"\<close> for \<open>n \<ge> 0\<close>: zeros on the left up to a width of 4, never a cut.\<close>

definition pad4 :: "nat \<Rightarrow> string" where
  "pad4 n = replicate (4 - length (digits n)) CHR ''0'' @ digits n"

text \<open>
  The block both creation handlers start with, over the order numbers of their table
  (the query does not leave out soft-deleted rows). \<^verbatim>\<open>order_by(order_number.desc()).first()\<close>
  is the greatest matching string in the lexicographic order of characters.
\<close>

definition generate_order_number :: "string \<Rightarrow> string \<Rightarrow> string list \<Rightarrow> error + string" where
  "generate_order_number prefix today order_numbers =
    (case filter (like_prefix (prefix @ ''-'' @ today @ ''-'')) order_numbers of
       [] \<Rightarrow> Inr (prefix @ ''-'' @ today @ ''-'' @ ''0001'')
     | x # xs \<Rightarrow>
         let last_order = fold max xs x
         in (case int_of_str (split_last last_order) of
               None \<Rightarrow> Inl ValueError
             | Some last_number \<Rightarrow>
                 Inr (prefix @ ''-'' @ today @ ''-'' @ pad4 (last_number + 1))))"

text \<open>
  \<^verbatim>\<open>create_manufacturing_order\<close>. The commit inserts the row: the quantity has to fit the
  integer of the driver, and the id and the order number (a UNIQUE column) must be new.
\<close>

definition fits_integer :: "int \<Rightarrow> bool" where
  "fits_integer i = (- (2 ^ 63) \<le> i \<and> i < 2 ^ 63)"

definition create_manufacturing_order ::
  "ManufacturingOrderCreate \<Rightarrow> uuid \<Rightarrow> string \<Rightarrow> uuid \<Rightarrow> database \<Rightarrow> error + database" where
  "create_manufacturing_order order_data current_user_id today new_id db =
    (case generate_order_number ''MO'' today
            (map mo_order_number (manufacturing_orders db)) of
       Inl e \<Rightarrow> Inl e
     | Inr order_number \<Rightarrow>
         let new_order = \<lparr>mo_id = new_id, mo_order_number = order_number,
               mo_product_id = moc_product_id order_data,
               mo_bom_id = moc_bom_id order_data,
               mo_quantity = moc_quantity order_data,
               mo_status_id = moc_status_id order_data,
               mo_priority_id = moc_priority_id order_data,
               mo_planned_start_date = moc_planned_start_date order_data,
               mo_planned_end_date = moc_planned_end_date order_data,
               mo_actual_end_date = None,
               mo_assigned_to_id = moc_assigned_to_id order_data,
               mo_notes = moc_notes order_data,
               mo_created_by_id = Some current_user_id,
               mo_updated_by_id = None, mo_deleted_at = None\<rparr>
         in if \<not> fits_integer (mo_quantity new_order) then Inl OverflowError
            else if new_id \<in> set (map mo_id (manufacturing_orders db))
                    \<or> order_number \<in> set (map mo_order_number (manufacturing_orders db))
            then Inl IntegrityError
            else Inr (db\<lparr>manufacturing_orders := manufacturing_orders db @ [new_order]\<rparr>))"

text \<open>
  \<^verbatim>\<open>create_work_order\<close>. Its first query names \<^verbatim>\<open>WorkOrder.order_number\<close>, which
  \<^verbatim>\<open>WorkOrder\<close> does not declare; the constructor call after the numbering passes
  \<^verbatim>\<open>order_number\<close> and other keywords that \<^verbatim>\<open>WorkOrder\<close> does not know.
\<close>

definition create_work_order ::
  "WorkOrderCreate \<Rightarrow> uuid \<Rightarrow> string \<Rightarrow> uuid \<Rightarrow> database \<Rightarrow> error + database" where
  "create_work_order work_order_data current_user_id today new_id db =
    bind (missing_attribute ''WorkOrder'' ''order_number'')
      (\<lambda>order_number :: work_order \<Rightarrow> string.
    (case generate_order_number ''WO'' today (map order_number (work_orders db)) of
       Inl e \<Rightarrow> Inl e
     | Inr new_number \<Rightarrow> Inl TypeError))"

text \<open>
  Creations of manufacturing orders one after the other on the same day, each with its
  request, its user and its fresh id. The first one that raises ends the run.
\<close>

fun create_orders ::
  "string \<Rightarrow> (ManufacturingOrderCreate \<times> uuid \<times> uuid) list \<Rightarrow> database \<Rightarrow> error + database" where
  "create_orders today [] db = Inr db"
| "create_orders today ((order_data, current_user_id, new_id) # requests) db =
    bind (create_manufacturing_order order_data current_user_id today new_id db)
      (create_orders today requests)"

text \<open>The order number the specification gives to the \<open>k\<close>-th order of a prefix and a day.\<close>

definition order_number_of :: "string \<Rightarrow> string \<Rightarrow> nat \<Rightarrow> string" where
  "order_number_of prefix today k = prefix @ ''-'' @ today @ ''-'' @ pad4 k"

text \<open>
  The greatest stored number of a prefix and a day has the counter \<open>m\<close>; \<open>m = 0\<close> when no
  number of the prefix and the day is stored.
\<close>

definition highest :: "string \<Rightarrow> string \<Rightarrow> string list \<Rightarrow> nat \<Rightarrow> bool" where
  "highest prefix today stored m =
    (let matching = filter (like_prefix (prefix @ ''-'' @ today @ ''-'')) stored
     in (matching = [] \<and> m = 0)
        \<or> (order_number_of prefix today m \<in> set matching
            \<and> (\<forall>s\<in>set matching. s \<le> order_number_of prefix today m)))"

section \<open>Work-order status and cascade (app/api/routes/work_orders.py)\<close>

text \<open>
  \<^verbatim>\<open>update_work_order_status\<close>. \<open>now_text\<close> is
  \<^verbatim>\<open>datetime.now().strftime('%Y-%m-%d %H:%M')\<close> and \<open>utcnow\<close> is \<^verbatim>\<open>datetime.utcnow()\<close>.
  The tests \<^verbatim>\<open>if status_update.x:\<close> are Python truth tests: a duration of 0 and an empty
  note count as absent.

  The query for the work order uses \<^verbatim>\<open>id\<close> and \<^verbatim>\<open>deleted_at\<close>, which \<^verbatim>\<open>WorkOrder\<close> has. The
  authorization test then reads \<^verbatim>\<open>work_order.assigned_to_id\<close>, which it has not. In
  what follows that read, \<^verbatim>\<open>actual_start_date\<close> and \<^verbatim>\<open>actual_end_date\<close> are set as plain
  attributes of the object, which no column stores; a note makes the handler read
  \<^verbatim>\<open>work_order.notes\<close>, which is missing too; the count of pending work orders sees the
  new status of this work order only if the session flushes before it queries.
\<close>

definition truthy_str :: "string option \<Rightarrow> bool" where
  "truthy_str s = (case s of None \<Rightarrow> False | Some t \<Rightarrow> t \<noteq> [])"

text \<open>
  Lines 196 to 245, from the authorization test to the commit, given the work order that
  the query returned and what the read of \<^verbatim>\<open>assigned_to_id\<close> gives.
\<close>

definition status_change_and_cascade ::
  "bool \<Rightarrow> (work_order \<Rightarrow> uuid option) \<Rightarrow> work_order \<Rightarrow> WorkOrderStatusUpdate \<Rightarrow> user
     \<Rightarrow> string \<Rightarrow> datetime \<Rightarrow> database \<Rightarrow> error + database" where
  "status_change_and_cascade autoflush assigned_to_id work_order status_update current_user
     now_text utcnow db =
    (if assigned_to_id work_order \<noteq> Some (user_id current_user)
        \<and> role current_user = None
     then Inl (AttributeError ''NoneType'' ''name'')
     else if assigned_to_id work_order \<noteq> Some (user_id current_user)
        \<and> role_name (the (role current_user)) \<noteq> ''Admin''
     then Inl (HTTPException 403
            ''You are not authorized to update this work order's status'')
     else
       let this = (\<lambda>w. wo_id w = wo_id work_order \<and> wo_deleted_at w = None);
           work_order = work_order\<lparr>wo_status_id := su_status_id status_update\<rparr>;
           work_order =
             (case su_actual_duration status_update of
                Some d \<Rightarrow> if d \<noteq> 0
                          then work_order\<lparr>wo_actual_duration :=
                                 Some (integer_column (PyFloat d))\<rparr>
                          else work_order
              | None \<Rightarrow> work_order)
       in if truthy_str (su_notes status_update)
          then missing_attribute ''WorkOrder'' ''notes''
          else
            let work_order = work_order\<lparr>wo_updated_by_id := Some (user_id current_user)\<rparr>;
                written = db\<lparr>work_orders :=
                            update_first this (\<lambda>_. work_order) (work_orders db)\<rparr>;
                seen = (if autoflush then written else db)
            in case find (\<lambda>s. os_name s = ''Done'') (order_statuses seen) of
                 None \<Rightarrow> Inr written
               | Some status_done \<Rightarrow>
                   if su_status_id status_update \<noteq> os_id status_done then Inr written
                   else
                    (case find (\<lambda>m. mo_id m = wo_manufacturing_order_id work_order)
                            (manufacturing_orders seen) of
                       None \<Rightarrow> Inr written
                     | Some manufacturing_order \<Rightarrow>
                         let pending_work_orders = length (filter
                               (\<lambda>w. wo_manufacturing_order_id w = mo_id manufacturing_order
                                    \<and> wo_status_id w \<noteq> os_id status_done
                                    \<and> wo_deleted_at w = None) (work_orders seen))
                         in if pending_work_orders = 0
                            then Inr (written\<lparr>manufacturing_orders := update_first
                                   (\<lambda>m. mo_id m = wo_manufacturing_order_id work_order)
                                   (\<lambda>m. m\<lparr>mo_status_id := os_id status_done,
                                          mo_actual_end_date := Some utcnow,
                                          mo_updated_by_id := Some (user_id current_user)\<rparr>)
                                   (manufacturing_orders written)\<rparr>)
                            else Inr written))"

text \<open>The handler: the query, the 404, and the read that raises.\<close>

definition update_work_order_status ::
  "bool \<Rightarrow> uuid \<Rightarrow> WorkOrderStatusUpdate \<Rightarrow> user \<Rightarrow> string \<Rightarrow> datetime \<Rightarrow> database
     \<Rightarrow> error + database" where
  "update_work_order_status autoflush work_order_id status_update current_user now_text utcnow db =
    (case find (\<lambda>w. wo_id w = work_order_id \<and> wo_deleted_at w = None) (work_orders db) of
       None \<Rightarrow> Inl (HTTPException 404 ''Work order not found'')
     | Some work_order \<Rightarrow>
         bind (missing_attribute ''WorkOrder'' ''assigned_to_id'')
           (\<lambda>assigned_to_id :: work_order \<Rightarrow> uuid option.
              status_change_and_cascade autoflush assigned_to_id work_order status_update
                current_user now_text utcnow db))"

text \<open>Rows as a later request loads them.\<close>

definition load_manufacturing_order :: "uuid \<Rightarrow> database \<Rightarrow> manufacturing_order option" where
  "load_manufacturing_order mid db = find (\<lambda>m. mo_id m = mid) (manufacturing_orders db)"

definition load_work_order :: "uuid \<Rightarrow> database \<Rightarrow> work_order option" where
  "load_work_order wid db =
     find (\<lambda>w. wo_id w = wid \<and> wo_deleted_at w = None) (work_orders db)"

section \<open>Business-rule validators (app/utils/exceptions.py)\<close>

definition valid_transitions :: "string \<rightharpoonup> string list" where
  "valid_transitions = map_of
    [(''Ready'', [''Started'', ''Canceled'']),
     (''Started'', [''Paused'', ''Completed'', ''Canceled'']),
     (''Paused'', [''Started'', ''Canceled'']),
     (''Completed'', []),
     (''Canceled'', [])]"

definition validate_work_order_status_transition :: "string \<Rightarrow> string \<Rightarrow> error + unit" where
  "validate_work_order_status_transition current_status new_status =
    (if new_status \<notin> set (case valid_transitions current_status of
                              None \<Rightarrow> [] | Some ts \<Rightarrow> ts)
     then Inl (BusinessLogicError
            (''Cannot transition work order from '' @ current_status @ '' to '' @ new_status)
            ''INVALID_STATUS_TRANSITION''
            [(''current_status'', StrV current_status), (''new_status'', StrV new_status)])
     else Inr ())"

definition validate_manufacturing_order_quantity :: "int \<Rightarrow> error + unit" where
  "validate_manufacturing_order_quantity quantity =
    (if quantity \<le> 0
     then Inl (ValidationError ''Manufacturing order quantity must be greater than 0''
            ''quantity'' (IntV quantity))
     else if quantity > 10000
     then Inl (BusinessLogicError ''Manufacturing order quantity cannot exceed 10,000 units''
            ''QUANTITY_LIMIT_EXCEEDED''
            [(''quantity'', IntV quantity), (''max_quantity'', IntV 10000)])
     else Inr ())"

section \<open>Example data\<close>

text \<open>One product, the three move types, one location.\<close>

definition ex_product :: "int \<Rightarrow> rat \<Rightarrow> product" where
  "ex_product qty cost = \<lparr>product_id = 1, product_name = ''Bolt'', product_unit_cost = cost,
     stock_quantity = qty\<rparr>"

definition ex_stock_db :: "int \<Rightarrow> rat \<Rightarrow> database" where
  "ex_stock_db qty cost = empty_db\<lparr>products := [ex_product qty cost],
     stock_move_types := [\<lparr>smt_id = 1, smt_name = ''Receipt''\<rparr>,
        \<lparr>smt_id = 2, smt_name = ''Issue''\<rparr>, \<lparr>smt_id = 3, smt_name = ''Adjustment''\<rparr>],
     locations := [\<lparr>location_id = 1, location_deleted_at = None\<rparr>]\<rparr>"

definition ex_move :: "uuid \<Rightarrow> rat \<Rightarrow> rat \<Rightarrow> StockMoveCreate" where
  "ex_move move_type qty cost = \<lparr>smc_product_id = 1, smc_move_type_id = move_type,
     smc_quantity = qty, smc_unit_cost = cost, smc_reference_id = None,
     smc_reference_type = None, smc_location_id = 1, smc_notes = None\<rparr>"

text \<open>
  One manufacturing order with two work orders, both assigned to user 7. The status table
  holds the work-order statuses of the transition table and the status named Done that the
  cascade looks up.
\<close>

definition ex_statuses :: "order_status list" where
  "ex_statuses = [\<lparr>os_id = 1, os_name = ''Ready''\<rparr>, \<lparr>os_id = 2, os_name = ''Started''\<rparr>,
     \<lparr>os_id = 3, os_name = ''Paused''\<rparr>, \<lparr>os_id = 4, os_name = ''Completed''\<rparr>,
     \<lparr>os_id = 5, os_name = ''Canceled''\<rparr>, \<lparr>os_id = 6, os_name = ''Done''\<rparr>]"

definition ex_mo_row :: "uuid \<Rightarrow> string \<Rightarrow> manufacturing_order" where
  "ex_mo_row i order_number = \<lparr>mo_id = i, mo_order_number = order_number, mo_product_id = 1,
     mo_bom_id = 1, mo_quantity = 10, mo_status_id = 2, mo_priority_id = 1,
     mo_planned_start_date = 100, mo_planned_end_date = 200, mo_actual_end_date = None,
     mo_assigned_to_id = None, mo_notes = None, mo_created_by_id = None,
     mo_updated_by_id = None, mo_deleted_at = None\<rparr>"

definition ex_mo :: manufacturing_order where
  "ex_mo = ex_mo_row 1 ''MO-20240101-0001''"

definition ex_wo :: "uuid \<Rightarrow> uuid \<Rightarrow> work_order" where
  "ex_wo i status = \<lparr>wo_id = i, wo_work_order_number = ''WO-20240101-0001'',
     wo_manufacturing_order_id = 1, wo_bom_operation_id = 1, wo_status_id = status,
     wo_assigned_operator_id = Some 7, wo_planned_duration = 60, wo_actual_duration = None,
     wo_start_time = None, wo_end_time = None, wo_comments = None, wo_issues = None,
     wo_created_by_id = None, wo_updated_by_id = None, wo_deleted_at = None\<rparr>"

definition ex_order_db :: "uuid \<Rightarrow> uuid \<Rightarrow> database" where
  "ex_order_db status1 status2 = empty_db\<lparr>order_statuses := ex_statuses,
     manufacturing_orders := [ex_mo], work_orders := [ex_wo 1 status1, ex_wo 2 status2]\<rparr>"

definition ex_operator :: user where
  "ex_operator = \<lparr>user_id = 7, role = Some \<lparr>role_name = ''Operator''\<rparr>\<rparr>"

definition ex_status_update :: "uuid \<Rightarrow> WorkOrderStatusUpdate" where
  "ex_status_update status = \<lparr>su_status_id = status, su_actual_start_date = None,
     su_actual_end_date = None, su_actual_duration = None, su_notes = None\<rparr>"

definition ex_mo_request :: "int \<Rightarrow> ManufacturingOrderCreate" where
  "ex_mo_request qty = \<lparr>moc_product_id = 1, moc_bom_id = 1, moc_quantity = qty,
     moc_status_id = 1, moc_priority_id = 1, moc_planned_start_date = 100,
     moc_planned_end_date = 200, moc_assigned_to_id = None, moc_notes = None\<rparr>"

text \<open>One BOM of cost 0 with no rows yet, and rows to put under it.\<close>

definition ex_bom_db :: database where
  "ex_bom_db = empty_db\<lparr>
     products := [ex_product 100 10],
     work_centers := [\<lparr>wc_id = 1, wc_deleted_at = None\<rparr>],
     boms := [\<lparr>bom_id = 1, bom_total_cost = 0, bom_deleted_at = None\<rparr>]\<rparr>"

definition ex_component :: "uuid \<Rightarrow> rat \<Rightarrow> rat \<Rightarrow> bom_component" where
  "ex_component i qty cost = \<lparr>bc_id = i, bc_bom_id = 1, bc_product_id = i, bc_quantity = qty,
     bc_unit_cost = cost, bc_deleted_at = None, bc_created_by_id = None,
     bc_updated_by_id = None\<rparr>"

definition ex_operation :: "uuid \<Rightarrow> int \<Rightarrow> int \<Rightarrow> rat \<Rightarrow> bom_operation" where
  "ex_operation i duration setup rate = \<lparr>bo_id = i, bo_bom_id = 1, bo_work_center_id = 1,
     bo_sequence = 1, bo_description = ''cut'', bo_duration = duration,
     bo_setup_time = setup, bo_cost_per_hour = rate, bo_deleted_at = None,
     bo_created_by_id = None, bo_updated_by_id = None\<rparr>"

definition ex_operation_request :: BOMOperationCreate where
  "ex_operation_request = \<lparr>boc_work_center_id = 1, boc_sequence = 1,
     boc_description = ''cut'', boc_duration = 30, boc_setup_time = 10,
     boc_cost_per_hour = 60\<rparr>"

section \<open>Properties\<close>

lemma find_key: "find P xs = Some x \<Longrightarrow> P x"
  by (auto simp: find_Some_iff)

lemmas ex_stock_defs = ex_product_def ex_stock_db_def ex_move_def empty_db_def

lemmas str_int_eval = str_int_def digits.simps digit_char_def

lemma bind_simps [simp]:
  "bind (Inl e) f = Inl e"
  "bind (Inr x) f = f x"
  by (simp_all add: bind_def)

lemmas py_arith = py_add_def py_sub_def py_mul_def

subsection \<open>Stock ledger\<close>

text \<open>
  The availability check of app/utils/exceptions.py on the inputs of its own test: it
  passes when the available quantity covers the required one, and its error carries both.
\<close>

lemma validate_stock_availability_passes:
  "validate_stock_availability pid required available = Inr () \<longleftrightarrow> required \<le> available"
  by (auto simp: validate_stock_availability_def)

lemma validate_stock_availability_test:
  "validate_stock_availability ''product-1'' 100 150 = Inr ()
   \<and> validate_stock_availability ''product-2'' 50 50 = Inr ()
   \<and> validate_stock_availability ''product-3'' 100 50 = Inl (BusinessLogicError
         ''Insufficient stock. Required: 100, Available: 50'' ''INSUFFICIENT_STOCK''
         [(''product_id'', StrV ''product-3''), (''required_quantity'', IntV 100),
          (''available_quantity'', IntV 50)])"
  by (simp add: validate_stock_availability_def str_int_eval)

text \<open>
  Every call of the handler raises on \<^verbatim>\<open>Product.deleted_at\<close>, whatever the request and the
  tables: no stock move is ever applied.
\<close>

lemma create_stock_move_raises:
  "create_stock_move d u n db = Inl (AttributeError ''Product'' ''deleted_at'')"
  by (simp add: create_stock_move_def missing_attribute_def)

text \<open>
  The update block on its own. An Issue beyond the stock raises the HTTP 400 of the
  handler, whose detail holds the available quantity; an Issue within the stock leaves the
  difference and the cost. A Receipt that leaves a positive stock raises \<^verbatim>\<open>TypeError\<close>: the
  old stock, now a \<^verbatim>\<open>float\<close>, is multiplied by the \<^verbatim>\<open>Decimal\<close> unit cost of the product.
\<close>

lemma issue_block:
  "update_product_stock ''Issue'' d p =
     (if of_int (stock_quantity p) < smc_quantity d
      then Inl (HTTPException 400 (''Insufficient stock for product '' @ product_name p
             @ ''. Available: '' @ str_int (stock_quantity p)))
      else Inr (PyFloat (of_int (stock_quantity p) - smc_quantity d),
                PyDecimal (product_unit_cost p)))"
  by (simp add: update_product_stock_def Let_def py_arith)

lemma receipt_block:
  "update_product_stock ''Receipt'' d p =
     (if 0 < of_int (stock_quantity p) + smc_quantity d then Inl TypeError
      else Inr (PyFloat (of_int (stock_quantity p) + smc_quantity d),
                PyDecimal (product_unit_cost p)))"
  by (simp add: update_product_stock_def Let_def py_arith)

text \<open>
  C1 fails on the handler. With 20 in stock, an Issue of 30 does not fail with
  InsufficientStock, and with 100 in stock the same Issue does not succeed: both calls
  raise \<^verbatim>\<open>AttributeError\<close> on \<^verbatim>\<open>Product.deleted_at\<close> and commit nothing.
\<close>

theorem issue_raises_attribute_error:
  "create_stock_move (ex_move 2 30 0) 7 9 (ex_stock_db 20 10)
     = Inl (AttributeError ''Product'' ''deleted_at'')
   \<and> create_stock_move (ex_move 2 30 0) 7 9 (ex_stock_db 100 10)
     = Inl (AttributeError ''Product'' ''deleted_at'')"
  by (simp add: create_stock_move_def missing_attribute_def)

text \<open>
  C2 fails on the handler. For stock 100 at cost 10.00, a Receipt of 50 at 16.00 raises
  \<^verbatim>\<open>AttributeError\<close> on \<^verbatim>\<open>Product.deleted_at\<close> and commits nothing; and the update block
  itself, given that product and that request, raises \<^verbatim>\<open>TypeError\<close> instead of computing
  the average cost 12.00.
\<close>

theorem receipt_raises:
  "create_stock_move (ex_move 1 50 16) 7 9 (ex_stock_db 100 10)
     = Inl (AttributeError ''Product'' ''deleted_at'')
   \<and> update_product_stock ''Receipt'' (ex_move 1 50 16) (ex_product 100 10) = Inl TypeError"
  by (simp add: create_stock_move_def missing_attribute_def update_product_stock_def Let_def
        py_arith ex_stock_defs)

subsection \<open>Permission evaluator\<close>

lemma all_permissions_complete: "p \<in> set all_permissions"
  by (cases p) (simp_all add: all_permissions_def)

lemma ROLE_PERMISSIONS_dom:
  "ROLE_PERMISSIONS n \<noteq> None \<longleftrightarrow>
     n \<in> {''Admin'', ''ManufacturingManager'', ''Operator'', ''InventoryManager''}"
  by (simp add: ROLE_PERMISSIONS_def)

lemma has_permission_no_role: "role u = None \<Longrightarrow> \<not> has_permission u p"
  by (simp add: has_permission_def)

text \<open>
  C10: \<open>has_permission\<close> is a function of the role name and the permission alone. For the
  role Admin it holds of every permission; for a role name outside the four configured
  ones it holds of none; for a configured role it holds exactly of the permissions in the
  list the table stores for that role.
\<close>

theorem has_permission_spec:
  assumes "role u = Some r"
  shows "(role_name r = ''Admin'' \<longrightarrow> has_permission u p)
       \<and> (role_name r \<notin> {''Admin'', ''ManufacturingManager'', ''Operator'', ''InventoryManager''}
            \<longrightarrow> \<not> has_permission u p)
       \<and> (\<forall>ps. ROLE_PERMISSIONS (role_name r) = Some ps \<longrightarrow>
            (has_permission u p \<longleftrightarrow> permission_value p \<in> set ps))"
proof (intro conjI impI allI)
  assume "role_name r = ''Admin''"
  then have "get_role_permissions (role_name r) = map permission_value all_permissions"
    by (simp add: get_role_permissions_def ROLE_PERMISSIONS_def)
  with assms show "has_permission u p"
    by (simp add: has_permission_def all_permissions_complete)
next
  assume "role_name r \<notin> {''Admin'', ''ManufacturingManager'', ''Operator'', ''InventoryManager''}"
  then have "ROLE_PERMISSIONS (role_name r) = None"
    using ROLE_PERMISSIONS_dom[of "role_name r"] by blast
  with assms show "\<not> has_permission u p"
    by (simp add: has_permission_def get_role_permissions_def)
next
  fix ps assume "ROLE_PERMISSIONS (role_name r) = Some ps"
  with assms show "has_permission u p \<longleftrightarrow> permission_value p \<in> set ps"
    by (simp add: has_permission_def get_role_permissions_def)
qed

theorem has_permission_spec_witness:
  "has_permission \<lparr>user_id = 1, role = Some \<lparr>role_name = ''Admin''\<rparr>\<rparr> MANAGE_SYSTEM
   \<and> \<not> has_permission \<lparr>user_id = 2, role = Some \<lparr>role_name = ''TestRole''\<rparr>\<rparr> READ_WORK_ORDER
   \<and> has_permission ex_operator READ_WORK_ORDER
   \<and> \<not> has_permission ex_operator CREATE_USER"
  using has_permission_spec [of "\<lparr>user_id = 1, role = Some \<lparr>role_name = ''Admin''\<rparr>\<rparr>"
          "\<lparr>role_name = ''Admin''\<rparr>" MANAGE_SYSTEM]
        has_permission_spec [of "\<lparr>user_id = 2, role = Some \<lparr>role_name = ''TestRole''\<rparr>\<rparr>"
          "\<lparr>role_name = ''TestRole''\<rparr>" READ_WORK_ORDER]
        has_permission_spec [of ex_operator "\<lparr>role_name = ''Operator''\<rparr>" READ_WORK_ORDER]
        has_permission_spec [of ex_operator "\<lparr>role_name = ''Operator''\<rparr>" CREATE_USER]
  by (simp add: ROLE_PERMISSIONS_def ex_operator_def)

subsection \<open>Order lifecycle\<close>

text \<open>
  The validator accepts exactly the edges of the transition table, and rejects every other
  pair with the error code \<^verbatim>\<open>INVALID_STATUS_TRANSITION\<close>. No route calls it.
\<close>

lemma transition_table:
  "validate_work_order_status_transition c n = Inr () \<longleftrightarrow>
     (c, n) \<in> {(''Ready'', ''Started''), (''Ready'', ''Canceled''),
               (''Started'', ''Paused''), (''Started'', ''Completed''), (''Started'', ''Canceled''),
               (''Paused'', ''Started''), (''Paused'', ''Canceled'')}"
  unfolding validate_work_order_status_transition_def valid_transitions_def
  by (auto split: if_splits)

lemma transition_error:
  "validate_work_order_status_transition c n \<noteq> Inr () \<Longrightarrow>
   validate_work_order_status_transition c n = Inl (BusinessLogicError
     (''Cannot transition work order from '' @ c @ '' to '' @ n) ''INVALID_STATUS_TRANSITION''
     [(''current_status'', StrV c), (''new_status'', StrV n)])"
  by (simp add: validate_work_order_status_transition_def split: if_splits)

lemma no_transition_from_terminal:
  "c \<in> {''Completed'', ''Canceled''} \<Longrightarrow> validate_work_order_status_transition c n \<noteq> Inr ()"
  by (auto simp: transition_table)

text \<open>
  The handler answers 404 for a work order it does not find, and raises on
  \<^verbatim>\<open>work_order.assigned_to_id\<close> for every work order it finds, whatever the requested
  status, the user and the flush setting: it never changes a status.
\<close>

lemma update_work_order_status_outcome:
  "update_work_order_status af wid su cu nt now db =
     (case load_work_order wid db of
        None \<Rightarrow> Inl (HTTPException 404 ''Work order not found'')
      | Some w \<Rightarrow> Inl (AttributeError ''WorkOrder'' ''assigned_to_id''))"
  by (simp add: update_work_order_status_def load_work_order_def missing_attribute_def Let_def
        split: option.splits)

lemmas ex_order_defs = ex_order_db_def ex_statuses_def ex_mo_def ex_mo_row_def ex_wo_def
  ex_operator_def ex_status_update_def empty_db_def load_work_order_def
  load_manufacturing_order_def

text \<open>
  What follows the read, had it returned the operator that the work order is assigned to.
  The new status is written with no look at the transition table: a Completed work order
  becomes Started. And the manufacturing order follows its last pending work order to Done
  only if the session flushes before the count; without the flush the count still sees the
  old status of that work order, and the manufacturing order stays as it is.
\<close>

lemma status_change_unchecked:
  "(case status_change_and_cascade False (\<lambda>w. Some 7) (ex_wo 1 4) (ex_status_update 2)
           ex_operator ''2024-01-01 10:00'' 300 (ex_order_db 4 2) of
      Inl e \<Rightarrow> False
    | Inr db' \<Rightarrow> map_option wo_status_id (load_work_order 1 db') = Some 2)"
  by (simp add: status_change_and_cascade_def truthy_str_def ex_order_defs)

lemma cascade_without_flush:
  "(case status_change_and_cascade False (\<lambda>w. Some 7) (ex_wo 2 2) (ex_status_update 6)
           ex_operator ''2024-01-01 10:00'' 300 (ex_order_db 6 2) of
      Inl e \<Rightarrow> False
    | Inr db' \<Rightarrow> map_option wo_status_id (load_work_order 2 db') = Some 6
        \<and> map_option mo_status_id (load_manufacturing_order 1 db') = Some 2
        \<and> map_option mo_actual_end_date (load_manufacturing_order 1 db') = Some None)"
  by (simp add: status_change_and_cascade_def truthy_str_def ex_order_defs)

lemma cascade_with_flush:
  "(case status_change_and_cascade True (\<lambda>w. Some 7) (ex_wo 2 2) (ex_status_update 6)
           ex_operator ''2024-01-01 10:00'' 300 (ex_order_db 6 2) of
      Inl e \<Rightarrow> False
    | Inr db' \<Rightarrow> map_option wo_status_id (load_work_order 2 db') = Some 6
        \<and> map_option mo_status_id (load_manufacturing_order 1 db') = Some 6
        \<and> map_option mo_actual_end_date (load_manufacturing_order 1 db') = Some (Some 300))"
  by (simp add: status_change_and_cascade_def truthy_str_def ex_order_defs)

text \<open>
  C3 fails on the handler. A work order in the status Ready is asked to move to Started, an
  edge of the table that the validator accepts: the handler does not succeed, it raises
  \<^verbatim>\<open>AttributeError\<close> and the status stays Ready. A work order in Completed asked to move to
  Started, which the validator rejects with \<^verbatim>\<open>INVALID_STATUS_TRANSITION\<close>, gets the same
  \<^verbatim>\<open>AttributeError\<close>: the handler never consults the table.
\<close>

theorem status_update_ignores_table:
  "validate_work_order_status_transition ''Ready'' ''Started'' = Inr ()
   \<and> map_option wo_status_id (load_work_order 1 (ex_order_db 1 2)) = Some 1
   \<and> update_work_order_status False 1 (ex_status_update 2) ex_operator ''2024-01-01 10:00''
        300 (ex_order_db 1 2) = Inl (AttributeError ''WorkOrder'' ''assigned_to_id'')
   \<and> update_work_order_status True 1 (ex_status_update 2) ex_operator ''2024-01-01 10:00''
        300 (ex_order_db 1 2) = Inl (AttributeError ''WorkOrder'' ''assigned_to_id'')
   \<and> validate_work_order_status_transition ''Completed'' ''Started''
     = Inl (BusinessLogicError ''Cannot transition work order from Completed to Started''
         ''INVALID_STATUS_TRANSITION''
         [(''current_status'', StrV ''Completed''), (''new_status'', StrV ''Started'')])
   \<and> update_work_order_status False 1 (ex_status_update 2) ex_operator ''2024-01-01 10:00''
        300 (ex_order_db 4 2) = Inl (AttributeError ''WorkOrder'' ''assigned_to_id'')"
  by (simp add: validate_work_order_status_transition_def valid_transitions_def
        update_work_order_status_def missing_attribute_def ex_order_defs)


subsection \<open>Manufacturing-order quantity\<close>

lemma quantity_check:
  "validate_manufacturing_order_quantity q = Inr () \<longleftrightarrow> 1 \<le> q \<and> q \<le> 10000"
  by (auto simp: validate_manufacturing_order_quantity_def)

lemma quantity_above_limit:
  "10000 < q \<Longrightarrow> validate_manufacturing_order_quantity q = Inl (BusinessLogicError
     ''Manufacturing order quantity cannot exceed 10,000 units'' ''QUANTITY_LIMIT_EXCEEDED''
     [(''quantity'', IntV q), (''max_quantity'', IntV 10000)])"
  by (simp add: validate_manufacturing_order_quantity_def)

lemma quantity_not_positive:
  "q \<le> 0 \<Longrightarrow> validate_manufacturing_order_quantity q = Inl (ValidationError
     ''Manufacturing order quantity must be greater than 0'' ''quantity'' (IntV q))"
  by (simp add: validate_manufacturing_order_quantity_def)

text \<open>
  C9 fails on the handler: \<^verbatim>\<open>create_manufacturing_order\<close> never calls the quantity
  validator. Requests for 15000 units and for 0 units both store an order, while the
  validator rejects both quantities.
\<close>

theorem create_order_skips_quantity_check:
  "validate_manufacturing_order_quantity 15000 = Inl (BusinessLogicError
     ''Manufacturing order quantity cannot exceed 10,000 units'' ''QUANTITY_LIMIT_EXCEEDED''
     [(''quantity'', IntV 15000), (''max_quantity'', IntV 10000)])
   \<and> (case create_manufacturing_order (ex_mo_request 15000) 7 ''20240101'' 9 empty_db of
        Inl e \<Rightarrow> False
      | Inr db' \<Rightarrow> map mo_quantity (manufacturing_orders db') = [15000])
   \<and> validate_manufacturing_order_quantity 0 = Inl (ValidationError
     ''Manufacturing order quantity must be greater than 0'' ''quantity'' (IntV 0))
   \<and> (case create_manufacturing_order (ex_mo_request 0) 7 ''20240101'' 9 empty_db of
        Inl e \<Rightarrow> False
      | Inr db' \<Rightarrow> map mo_quantity (manufacturing_orders db') = [0])"
  by (simp add: validate_manufacturing_order_quantity_def create_manufacturing_order_def
        generate_order_number_def fits_integer_def ex_mo_request_def empty_db_def)

subsection \<open>BOM cost roll-up\<close>

lemmas ex_bom_defs = ex_bom_db_def ex_component_def ex_operation_def ex_operation_request_def
  ex_product_def empty_db_def

text \<open>
  What the roll-up computes. The material sum is an \<^verbatim>\<open>int\<close> 0 without components and
  otherwise a \<^verbatim>\<open>Decimal\<close>, the exact sum of the products. Every operation term raises
  \<^verbatim>\<open>TypeError\<close>, so the roll-up returns only for a BOM without operations.
\<close>

lemma py_sum_from_decimals:
  assumes "\<And>x. acc \<noteq> PyFloat x"
  shows "py_sum_from acc (map (\<lambda>c. py_mul (PyDecimal (bc_quantity c))
                                           (PyDecimal (bc_unit_cost c))) cs)
         = Inr (if cs = [] then acc
                else PyDecimal (num_value acc + (\<Sum>c\<leftarrow>cs. bc_quantity c * bc_unit_cost c)))"
  using assms
proof (induction cs arbitrary: acc)
  case Nil
  show ?case by simp
next
  case (Cons c cs)
  let ?t = "bc_quantity c * bc_unit_cost c"
  have step: "py_add acc (PyDecimal ?t) = Inr (PyDecimal (num_value acc + ?t))"
    using Cons.prems by (cases acc) (auto simp: py_arith)
  have "py_sum_from (PyDecimal (num_value acc + ?t))
          (map (\<lambda>c. py_mul (PyDecimal (bc_quantity c)) (PyDecimal (bc_unit_cost c))) cs)
        = Inr (if cs = [] then PyDecimal (num_value acc + ?t)
               else PyDecimal (num_value (PyDecimal (num_value acc + ?t))
                      + (\<Sum>c\<leftarrow>cs. bc_quantity c * bc_unit_cost c)))"
    by (rule Cons.IH) simp
  then show ?case
    using step by (simp add: py_arith add.assoc)
qed

lemma material_sum_eq:
  "py_sum (map (\<lambda>c. py_mul (PyDecimal (bc_quantity c)) (PyDecimal (bc_unit_cost c))) cs)
     = Inr (material_sum cs)"
  unfolding py_sum_def material_sum_def
  by (subst py_sum_from_decimals) simp_all

lemma labor_term_raises:
  "bind (py_add (PyInt d) (PyInt s)) (\<lambda>minutes.
     bind (py_truediv minutes (PyInt 60)) (\<lambda>hours. py_mul hours (PyDecimal r)))
   = Inl TypeError"
  by (simp add: py_arith)

lemma labor_sum_eq:
  "py_sum (map (\<lambda>operation.
      bind (py_add (PyInt (bo_duration operation)) (PyInt (bo_setup_time operation)))
        (\<lambda>minutes. bind (py_truediv minutes (PyInt 60))
        (\<lambda>hours. py_mul hours (PyDecimal (bo_cost_per_hour operation))))) os)
   = (if os = [] then Inr (PyInt 0) else Inl TypeError)"
  unfolding labor_term_raises by (cases os) (simp_all add: py_sum_def)

lemma calculate_bom_cost_detailed_eq:
  "calculate_bom_cost_detailed db b =
    (let cs = filter (\<lambda>c. bc_bom_id c = b \<and> bc_deleted_at c = None) (bom_components db);
         os = filter (\<lambda>x. bo_bom_id x = b \<and> bo_deleted_at x = None) (bom_operations db)
     in if os \<noteq> [] then Inl TypeError
        else Inr (material_sum cs, PyInt 0, material_sum cs, length cs, 0))"
  unfolding calculate_bom_cost_detailed_def Let_def material_sum_eq labor_sum_eq
  by (simp add: material_sum_def py_arith)

text \<open>
  C6 as stated fails: the material cost is not rounded. A single component of quantity
  0.300 and unit cost 0.01 gives the material cost 0.003, where rounding the sum to two
  decimal places gives 0.00.
\<close>

theorem material_cost_not_rounded:
  "calculate_bom_cost_detailed (ex_bom_db\<lparr>bom_components := [ex_component 1 (3 / 10) (1 / 100)]\<rparr>) 1
     = Inr (PyDecimal (3 / 1000), PyInt 0, PyDecimal (3 / 1000), 1, 0)
   \<and> round_2dp (3 / 10 * (1 / 100)) = 0"
  by (simp add: calculate_bom_cost_detailed_eq material_sum_def Let_def ex_bom_defs
        round_2dp_def round_def floor_eq_iff)

text \<open>
  C6, amended: for a BOM without operations that are not soft-deleted, the roll-up returns
  as material cost the exact sum of quantity times unit cost over the components that are
  not soft-deleted, with no rounding, the labor cost 0, a total equal to the material
  cost, and the two counts. (The roll-up of a BOM with an operation is left out here.)
\<close>

theorem cost_roll_up:
  assumes "filter (\<lambda>x. bo_bom_id x = b \<and> bo_deleted_at x = None) (bom_operations db) = []"
  shows "\<exists>m. calculate_bom_cost_detailed db b
               = Inr (m, PyInt 0, m,
                      length (filter (\<lambda>c. bc_bom_id c = b \<and> bc_deleted_at c = None)
                                (bom_components db)), 0)
           \<and> num_value m
               = (\<Sum>c\<leftarrow>filter (\<lambda>c. bc_bom_id c = b \<and> bc_deleted_at c = None)
                          (bom_components db). bc_quantity c * bc_unit_cost c)"
  using assms by (simp add: calculate_bom_cost_detailed_eq material_sum_def Let_def)

text \<open>Components of 2 at 5.00 and 1 at 3.00, no operation: 13.00, 0 and 13.00.\<close>

theorem cost_roll_up_witness:
  "calculate_bom_cost_detailed
     (ex_bom_db\<lparr>bom_components := [ex_component 1 2 5, ex_component 2 1 3]\<rparr>) 1
     = Inr (PyDecimal 13, PyInt 0, PyDecimal 13, 2, 0)"
proof -
  let ?db = "ex_bom_db\<lparr>bom_components := [ex_component 1 2 5, ex_component 2 1 3]\<rparr>"
  have none: "filter (\<lambda>x. bo_bom_id x = 1 \<and> bo_deleted_at x = None) (bom_operations ?db) = []"
    by (simp add: ex_bom_defs)
  from cost_roll_up [OF none] obtain m
    where m: "calculate_bom_cost_detailed ?db 1 = Inr (m, PyInt 0, m, 2, 0)"
      and v: "num_value m = 13"
    by (auto simp: ex_bom_defs)
  have "m = PyDecimal 13"
    using m by (simp add: calculate_bom_cost_detailed_eq material_sum_def Let_def ex_bom_defs)
  with m show ?thesis by simp
qed

text \<open>
  The outcome of the roll-up, a result or the exception, is the same for tables that are
  permutations of each other.
\<close>

lemma sum_list_filter_mset:
  fixes f :: "'a \<Rightarrow> rat"
  shows "sum_list (map f (filter P xs)) = sum_mset (image_mset f (filter_mset P (mset xs)))"
  by (induction xs) simp_all

lemma filter_empty_mset: "filter P xs = [] \<longleftrightarrow> filter_mset P (mset xs) = {#}"
  by (induction xs) simp_all

lemma length_filter_mset: "length (filter P xs) = size (filter_mset P (mset xs))"
  by (induction xs) simp_all

lemma roll_up_outcome_invariant:
  assumes "mset (bom_components db1) = mset (bom_components db2)"
    and "mset (bom_operations db1) = mset (bom_operations db2)"
  shows "calculate_bom_cost_detailed db1 b = calculate_bom_cost_detailed db2 b"
proof -
  let ?C = "\<lambda>c. bc_bom_id c = b \<and> bc_deleted_at c = None"
  let ?O = "\<lambda>x. bo_bom_id x = b \<and> bo_deleted_at x = None"
  have len: "length (filter ?C (bom_components db1)) = length (filter ?C (bom_components db2))"
    by (simp only: length_filter_mset assms)
  have sum: "(\<Sum>c\<leftarrow>filter ?C (bom_components db1). bc_quantity c * bc_unit_cost c)
           = (\<Sum>c\<leftarrow>filter ?C (bom_components db2). bc_quantity c * bc_unit_cost c)"
    by (simp only: sum_list_filter_mset assms)
  have nil: "filter ?C (bom_components db1) = [] \<longleftrightarrow> filter ?C (bom_components db2) = []"
    by (simp only: filter_empty_mset assms)
  have ops: "filter ?O (bom_operations db1) = [] \<longleftrightarrow> filter ?O (bom_operations db2) = []"
    by (simp only: filter_empty_mset assms)
  have "material_sum (filter ?C (bom_components db1))
          = material_sum (filter ?C (bom_components db2))"
    unfolding material_sum_def by (simp only: sum nil)
  then show ?thesis
    unfolding calculate_bom_cost_detailed_eq Let_def by (simp only: len ops)
qed


text \<open>
  C5 fails on the operation handlers: \<^verbatim>\<open>create_bom_operation\<close> stores the operation and
  commits without recomputing the total. On a BOM of cost 0, adding an operation of 30
  minutes with 10 minutes of setup at 60.00 per hour leaves the stored total at 0 while the
  roll-up of the specification over the rows is 40 (the helper of the handlers raises on
  these rows); soft-deleting that operation afterwards with \<^verbatim>\<open>delete_bom_operation\<close>
  leaves a stored total of 40 in place while the roll-up is 0.
\<close>

theorem operation_mutations_leave_total_stale:
  "(case create_bom_operation 1 ex_operation_request 7 9 ex_bom_db of
      Inl e \<Rightarrow> False
    | Inr db' \<Rightarrow> stored_total_cost 1 db' = Some 0 \<and> rollUp_of_rows db' 1 = (0, 40, 40)
        \<and> calculate_bom_cost db' 1 = Inl TypeError)
   \<and> (case delete_bom_operation 1 1 7 300
            (ex_bom_db\<lparr>boms := [\<lparr>bom_id = 1, bom_total_cost = 40, bom_deleted_at = None\<rparr>],
                       bom_operations := [ex_operation 1 30 10 60]\<rparr>) of
      Inl e \<Rightarrow> False
    | Inr db' \<Rightarrow> stored_total_cost 1 db' = Some 40 \<and> rollUp_of_rows db' 1 = (0, 0, 0)
        \<and> calculate_bom_cost db' 1 = Inr (PyInt 0))"
  by (simp add: create_bom_operation_def delete_bom_operation_def stored_total_cost_def
        calculate_bom_cost_def calculate_bom_cost_detailed_eq material_sum_def
        rollUp_of_rows_def rollUp_def round_2dp_def round_def floor_eq_iff Let_def
        ex_bom_defs)

subsection \<open>Order numbering\<close>

text \<open>
  Digits, the parser of the counter and the padding: a padded counter reads back as its
  number, and for counters below 10000 the order of the padded strings is the order of the
  numbers.
\<close>

lemma digit_cases: "d < 10 \<Longrightarrow> d \<in> {0, 1, 2, 3, 4, 5, 6, 7, 8, 9::nat}"
  by auto

lemma digit_char_props:
  assumes "d < 10"
  shows "is_digit (digit_char d)" "digit_value (digit_char d) = d"
    "digit_char d \<noteq> CHR ''-''" "of_char (digit_char d) = 48 + d"
  using digit_cases[OF assms]
  by (auto simp: digit_char_def is_digit_def digit_value_def)

lemma digits_props:
  "list_all is_digit (digits n) \<and> digits n \<noteq> [] \<and> CHR ''-'' \<notin> set (digits n)"
proof (induction n rule: digits.induct)
  case (1 n)
  show ?case
  proof (cases "n < 10")
    case True
    then show ?thesis using digit_char_props[of n]
      by (subst (1 2 3) digits.simps) simp
  next
    case False
    have "n mod 10 < 10" by simp
    from digit_char_props[OF this] 1[OF False] False show ?thesis
      by (subst (1 2 3) digits.simps) auto
  qed
qed

lemma parse_digits_simps [simp]:
  "parse_digits a [] = a"
  "parse_digits a (c # cs) = parse_digits (10 * a + digit_value c) cs"
  "parse_digits a (xs @ ys) = parse_digits (parse_digits a xs) ys"
  by (simp_all add: parse_digits_def)

lemma num_digits: "parse_digits 0 (digits n) = n"
proof (induction n rule: digits.induct)
  case (1 n)
  show ?case
  proof (cases "n < 10")
    case True
    then show ?thesis using digit_char_props[of n]
      by (subst digits.simps) simp
  next
    case False
    have "n mod 10 < 10" by simp
    from digit_char_props[OF this] 1[OF False] False show ?thesis
      by (subst digits.simps) simp
  qed
qed

lemma length_digits: "n < 10 ^ k \<Longrightarrow> 0 < k \<Longrightarrow> length (digits n) \<le> k"
proof (induction n arbitrary: k rule: digits.induct)
  case (1 n)
  show ?case
  proof (cases "n < 10")
    case True
    then show ?thesis using 1(3) by (subst digits.simps) simp
  next
    case False
    then obtain j where k: "k = Suc j" using 1(3) by (cases k) auto
    with False 1(2) have "0 < j" by (cases j) auto
    moreover from 1(2) k have "n div 10 < 10 ^ j"
      by (simp add: less_mult_imp_div_less mult.commute)
    ultimately have "length (digits (n div 10)) \<le> j" using 1(1)[OF False] by blast
    with False k show ?thesis by (subst digits.simps) simp
  qed
qed

lemma parse_digits_acc:
  "parse_digits a cs = a * 10 ^ length cs + parse_digits 0 cs"
proof (induction cs arbitrary: a)
  case Nil
  show ?case by simp
next
  case (Cons c cs)
  have "parse_digits a (c # cs) = (10 * a + digit_value c) * 10 ^ length cs + parse_digits 0 cs"
    using Cons.IH[of "10 * a + digit_value c"] by simp
  also have "\<dots> = a * 10 ^ length (c # cs) + (digit_value c * 10 ^ length cs + parse_digits 0 cs)"
    by (simp add: algebra_simps)
  also have "digit_value c * 10 ^ length cs + parse_digits 0 cs = parse_digits 0 (c # cs)"
    using Cons.IH[of "digit_value c"] by simp
  finally show ?case .
qed

lemma num_Cons:
  "parse_digits 0 (c # cs) = digit_value c * 10 ^ length cs + parse_digits 0 cs"
  using parse_digits_acc[of "digit_value c" cs] by simp

lemma num_bound: "list_all is_digit cs \<Longrightarrow> parse_digits 0 cs < 10 ^ length cs"
proof (induction cs)
  case Nil
  show ?case by simp
next
  case (Cons c cs)
  then have "digit_value c \<le> 9" and "parse_digits 0 cs < 10 ^ length cs"
    by (auto simp: is_digit_def digit_value_def)
  then have "digit_value c * 10 ^ length cs + parse_digits 0 cs
               < 9 * 10 ^ length cs + 10 ^ length cs"
    by (meson add_le_less_mono mult_le_mono1)
  then show ?case by (simp only: num_Cons) simp
qed

lemma digit_less: "is_digit c \<Longrightarrow> is_digit d \<Longrightarrow> c < d \<longleftrightarrow> digit_value c < digit_value d"
  unfolding is_digit_def digit_value_def less_char_def by arith

lemma digit_eq: "is_digit c \<Longrightarrow> is_digit d \<Longrightarrow> c = d \<longleftrightarrow> digit_value c = digit_value d"
proof
  assume a: "is_digit c" "is_digit d" "digit_value c = digit_value d"
  have "(of_char c :: nat) = of_char d"
    using a unfolding is_digit_def digit_value_def by arith
  then show "c = d" by simp
qed simp

lemma lex_digits_less:
  "length xs = length ys \<Longrightarrow> list_all is_digit xs \<Longrightarrow> list_all is_digit ys \<Longrightarrow>
     xs < ys \<longleftrightarrow> parse_digits 0 xs < parse_digits 0 ys"
proof (induction xs ys rule: list_induct2)
  case Nil
  show ?case by simp
next
  case (Cons c cs d ds)
  then have c: "is_digit c" and d: "is_digit d"
    and cs: "list_all is_digit cs" and ds: "list_all is_digit ds" by simp_all
  have IH: "cs < ds \<longleftrightarrow> parse_digits 0 cs < parse_digits 0 ds" using Cons cs ds by blast
  let ?m = "10 ^ length cs :: nat"
  have len: "length ds = length cs" using Cons(1) by simp
  have bc: "parse_digits 0 cs < ?m" using num_bound[OF cs] .
  have bd: "parse_digits 0 ds < ?m" using num_bound[OF ds] len by simp
  have unfold: "parse_digits 0 (c # cs) < parse_digits 0 (d # ds) \<longleftrightarrow>
      digit_value c * ?m + parse_digits 0 cs < digit_value d * ?m + parse_digits 0 ds"
    by (simp only: num_Cons len)
  show ?case
  proof (cases "digit_value c < digit_value d")
    case True
    then have "Suc (digit_value c) \<le> digit_value d" by simp
    then have "Suc (digit_value c) * ?m \<le> digit_value d * ?m"
      by (rule mult_le_mono1)
    with bc have "digit_value c * ?m + parse_digits 0 cs
                    < digit_value d * ?m + parse_digits 0 ds" by simp
    moreover have "c < d" using True digit_less[OF c d] by simp
    ultimately show ?thesis unfolding unfold by simp
  next
    case False
    show ?thesis
    proof (cases "digit_value c = digit_value d")
      case True
      then have "c = d" using digit_eq[OF c d] by simp
      with True IH show ?thesis unfolding unfold by simp
    next
      case ne: False
      with False have gt: "digit_value d < digit_value c" by simp
      then have "Suc (digit_value d) \<le> digit_value c" by simp
      then have "Suc (digit_value d) * ?m \<le> digit_value c * ?m"
        by (rule mult_le_mono1)
      with bd have "digit_value d * ?m + parse_digits 0 ds
                      < digit_value c * ?m + parse_digits 0 cs" by simp
      moreover have "\<not> c < d" "c \<noteq> d"
        using gt digit_less[OF c d] digit_eq[OF c d] by auto
      ultimately show ?thesis unfolding unfold by simp
    qed
  qed
qed

lemma num_zeros: "parse_digits 0 (replicate k CHR ''0'') = 0"
  by (induction k) (simp_all add: digit_value_def)

lemma pad4_props:
  "list_all is_digit (pad4 n)" "pad4 n \<noteq> []" "CHR ''-'' \<notin> set (pad4 n)"
  "parse_digits 0 (pad4 n) = n"
  using digits_props[of n]
  by (auto simp: pad4_def num_zeros num_digits is_digit_def list_all_iff)

lemma digit_not_special:
  "is_digit c \<Longrightarrow> \<not> is_space c \<and> c \<noteq> CHR ''+'' \<and> c \<noteq> CHR ''_'' \<and> c \<noteq> CHR ''-''"
  by (auto simp: is_digit_def is_space_def)

lemma dropWhile_digits: "list_all is_digit s \<Longrightarrow> dropWhile is_space s = s"
  by (cases s) (simp_all add: digit_not_special)

lemma strip_digits: "list_all is_digit s \<Longrightarrow> strip s = s"
proof -
  assume d: "list_all is_digit s"
  then have "list_all is_digit (rev s)" by (simp add: list_all_iff)
  then show ?thesis
    by (simp add: strip_def dropWhile_digits d)
qed

lemma digit_part_digits: "list_all is_digit s \<Longrightarrow> s \<noteq> [] \<Longrightarrow> digit_part s"
  by (induction s rule: digit_part.induct) (auto simp: digit_not_special)

lemma int_of_str_digits:
  assumes "list_all is_digit s" and "s \<noteq> []"
  shows "int_of_str s = Some (parse_digits 0 s)"
proof -
  from assms obtain c cs where s: "s = c # cs" by (cases s) auto
  with assms(1) have "c \<noteq> CHR ''+''" by (simp add: digit_not_special)
  with s have plus: "drop_plus s = s" by simp
  have "filter (\<lambda>c. c \<noteq> CHR ''_'') s = s"
    using assms(1) by (simp add: list_all_iff digit_not_special)
  then show ?thesis
    using assms by (simp add: int_of_str_def Let_def strip_digits plus digit_part_digits)
qed

lemma int_of_str_pad4: "int_of_str (pad4 n) = Some n"
  using int_of_str_digits[of "pad4 n"] by (simp add: pad4_props)

lemma length_pad4: "n < 10000 \<Longrightarrow> length (pad4 n) = 4"
  using length_digits[of n 4] by (simp add: pad4_def)

lemma pad4_less: "j < k \<Longrightarrow> k < 10000 \<Longrightarrow> pad4 j < pad4 k"
  using lex_digits_less[of "pad4 j" "pad4 k"]
  by (simp add: length_pad4 pad4_props)

lemma append_less_same: "xs @ ys < xs @ zs \<longleftrightarrow> ys < (zs :: 'a::linorder list)"
  by (induction xs) simp_all

lemma split_last_append:
  assumes "CHR ''-'' \<notin> set ys"
  shows "split_last (xs @ ''-'' @ ys) = ys"
proof -
  have "\<forall>x\<in>set (rev ys). x \<noteq> CHR ''-''"
    using assms by auto
  then have tw: "takeWhile (\<lambda>c. c \<noteq> CHR ''-'') (rev ys) = rev ys"
    by (simp only: takeWhile_eq_all_conv)
  show ?thesis
    by (simp add: split_last_def takeWhile_tail tw)
qed

lemma like_prefix_append: "like_prefix pre (pre @ x)"
  by (simp add: like_prefix_def)

lemma order_number_of_less:
  "j < k \<Longrightarrow> k < 10000 \<Longrightarrow> order_number_of p t j < order_number_of p t k"
  unfolding order_number_of_def
  by (simp only: append_less_same pad4_less)


lemma pad4_1: "pad4 (Suc 0) = ''0001''"
  by (simp add: pad4_def digits.simps digit_char_def numeral_3_eq_3)

lemma order_number_of_matches:
  "like_prefix (p @ ''-'' @ t @ ''-'') (order_number_of p t k)"
  by (simp add: like_prefix_def order_number_of_def)

text \<open>
  The generator on any column of order numbers: 0001 when no number of the prefix and the
  day is stored, and otherwise the counter of the greatest such string plus one.
\<close>

lemma generate_first:
  assumes "filter (like_prefix (p @ ''-'' @ t @ ''-'')) stored = []"
  shows "generate_order_number p t stored = Inr (order_number_of p t 1)"
  using assms by (simp add: generate_order_number_def order_number_of_def pad4_1)

lemma generate_highest:
  assumes "filter (like_prefix (p @ ''-'' @ t @ ''-'')) stored \<noteq> []"
  shows "generate_order_number p t stored =
     (case int_of_str (split_last
              (Max (set (filter (like_prefix (p @ ''-'' @ t @ ''-'')) stored)))) of
        None \<Rightarrow> Inl ValueError
      | Some c \<Rightarrow> Inr (p @ ''-'' @ t @ ''-'' @ pad4 (c + 1)))"
proof -
  from assms obtain x xs
    where xs: "filter (like_prefix (p @ ''-'' @ t @ ''-'')) stored = x # xs"
    by (cases "filter (like_prefix (p @ ''-'' @ t @ ''-'')) stored") auto
  have "fold max xs x = Max (set (x # xs))"
    by (simp only: Max.set_eq_fold)
  then show ?thesis
    using xs by (simp add: generate_order_number_def del: set_simps)
qed

lemma generate_next:
  assumes m: "order_number_of p t m \<in> set (filter (like_prefix (p @ ''-'' @ t @ ''-'')) stored)"
    and top: "\<And>s. s \<in> set (filter (like_prefix (p @ ''-'' @ t @ ''-'')) stored)
                \<Longrightarrow> s \<le> order_number_of p t m"
  shows "generate_order_number p t stored = Inr (order_number_of p t (Suc m))"
proof -
  let ?M = "filter (like_prefix (p @ ''-'' @ t @ ''-'')) stored"
  have ne: "?M \<noteq> []"
  proof
    assume e: "?M = []"
    from m show False unfolding e by simp
  qed
  have "Max (set ?M) = order_number_of p t m"
    using m top by (intro Max_eqI) auto
  moreover have "split_last (order_number_of p t m) = pad4 m"
    using split_last_append[of "pad4 m" "p @ ''-'' @ t"] pad4_props(3)[of m]
    by (simp add: order_number_of_def)
  ultimately show ?thesis
    using generate_highest[OF ne] by (simp add: int_of_str_pad4 order_number_of_def)
qed

text \<open>
  Where the column stands before a creation: \<open>highest p t stored m\<close> says that the
  greatest stored number of the prefix and the day has the counter \<open>m\<close>, with \<open>m = 0\<close> when
  there is none. It is kept, with \<open>m + 1\<close>, by storing the number that is generated.
\<close>

lemma highest_step:
  assumes h: "highest p t stored m" and m: "m < 9999"
  shows "generate_order_number p t stored = Inr (order_number_of p t (Suc m))"
    and "order_number_of p t (Suc m) \<notin> set stored"
    and "highest p t (stored @ [order_number_of p t (Suc m)]) (Suc m)"
proof -
  let ?P = "like_prefix (p @ ''-'' @ t @ ''-'')"
  let ?M = "filter ?P stored"
  have less: "order_number_of p t m < order_number_of p t (Suc m)"
    using order_number_of_less[of m "Suc m" p t] m by simp
  from h consider (none) "?M = []" "m = 0"
    | (some) "order_number_of p t m \<in> set ?M" "\<forall>s\<in>set ?M. s \<le> order_number_of p t m"
    unfolding highest_def Let_def by blast
  note cases = this
  from cases show "generate_order_number p t stored = Inr (order_number_of p t (Suc m))"
  proof cases
    case none
    then show ?thesis using generate_first[of p t stored] by simp
  next
    case some
    then show ?thesis using generate_next[of p t m stored] by blast
  qed
  from cases have below: "\<forall>s\<in>set ?M. s \<le> order_number_of p t m"
  proof cases
    case none
    have e: "set ?M = {}" using none(1) by (simp only: list.set(1))
    show ?thesis unfolding e by (rule ball_empty [THEN iffD2]) simp
  next
    case some
    then show ?thesis by blast
  qed
  show fresh: "order_number_of p t (Suc m) \<notin> set stored"
  proof
    assume "order_number_of p t (Suc m) \<in> set stored"
    then have "order_number_of p t (Suc m) \<in> set ?M"
      using order_number_of_matches[of p t "Suc m"] by simp
    with below have "order_number_of p t (Suc m) \<le> order_number_of p t m" by blast
    with less show False by simp
  qed
  have M': "filter ?P (stored @ [order_number_of p t (Suc m)])
              = ?M @ [order_number_of p t (Suc m)]"
    using order_number_of_matches[of p t "Suc m"] by simp
  show "highest p t (stored @ [order_number_of p t (Suc m)]) (Suc m)"
    unfolding highest_def Let_def M' using below less
    by (auto intro: less_imp_le order_trans)
qed

lemma create_manufacturing_order_step:
  assumes h: "highest ''MO'' today (map mo_order_number (manufacturing_orders db)) m"
    and m: "m < 9999"
    and fresh: "i \<notin> set (map mo_id (manufacturing_orders db))"
    and fits: "fits_integer (moc_quantity d)"
  shows "\<exists>db'. create_manufacturing_order d u today i db = Inr db'
           \<and> map mo_order_number (manufacturing_orders db')
               = map mo_order_number (manufacturing_orders db) @ [order_number_of ''MO'' today (Suc m)]
           \<and> set (map mo_id (manufacturing_orders db'))
               = insert i (set (map mo_id (manufacturing_orders db)))"
  using highest_step(1,2)[OF h m] fresh fits
  by (simp add: create_manufacturing_order_def Let_def)

lemma create_orders_numbers:
  assumes "highest ''MO'' today (map mo_order_number (manufacturing_orders db)) m"
    and "m + length reqs \<le> 9999"
    and "distinct (map (\<lambda>(d, u, i). i) reqs)"
    and "\<forall>(d, u, i)\<in>set reqs. i \<notin> set (map mo_id (manufacturing_orders db))
            \<and> fits_integer (moc_quantity d)"
  shows "\<exists>db'. create_orders today reqs db = Inr db'
           \<and> map mo_order_number (manufacturing_orders db')
               = map mo_order_number (manufacturing_orders db)
                 @ map (order_number_of ''MO'' today) [Suc m..<Suc (m + length reqs)]"
  using assms
proof (induction reqs arbitrary: db m)
  case Nil
  show ?case by simp
next
  case (Cons r reqs)
  obtain d u i where r: "r = (d, u, i)" by (cases r) auto
  from Cons.prems r have m: "m < 9999"
    and fresh: "i \<notin> set (map mo_id (manufacturing_orders db))"
    and fits: "fits_integer (moc_quantity d)" by auto
  from create_manufacturing_order_step[OF Cons.prems(1) m fresh fits, of u]
  obtain db1 where db1: "create_manufacturing_order d u today i db = Inr db1"
    and nums1: "map mo_order_number (manufacturing_orders db1)
                  = map mo_order_number (manufacturing_orders db)
                    @ [order_number_of ''MO'' today (Suc m)]"
    and ids1: "set (map mo_id (manufacturing_orders db1))
                  = insert i (set (map mo_id (manufacturing_orders db)))"
    by blast
  have h1: "highest ''MO'' today (map mo_order_number (manufacturing_orders db1)) (Suc m)"
    unfolding nums1 by (rule highest_step(3)[OF Cons.prems(1) m])
  have len: "Suc m + length reqs \<le> 9999" using Cons.prems(2) by simp
  have dist: "distinct (map (\<lambda>(d, u, i). i) reqs)" using Cons.prems(3) by simp
  have rest: "\<forall>(d, u, j)\<in>set reqs. j \<notin> set (map mo_id (manufacturing_orders db1))
                 \<and> fits_integer (moc_quantity d)"
    using Cons.prems(3,4) r unfolding ids1 by (auto simp: image_iff)
  from Cons.IH[OF h1 len dist rest] obtain db'
    where db': "create_orders today reqs db1 = Inr db'"
      and nums': "map mo_order_number (manufacturing_orders db')
                    = map mo_order_number (manufacturing_orders db1)
                      @ map (order_number_of ''MO'' today)
                          [Suc (Suc m)..<Suc (Suc m + length reqs)]"
    by blast
  have "[Suc m..<Suc (m + length (r # reqs))]
          = Suc m # [Suc (Suc m)..<Suc (Suc m + length reqs)]"
    by (subst upt_rec) (simp del: upt_Suc)
  then show ?case
    using db1 db' nums' nums1 r by simp
qed

text \<open>
  The handler of work orders never reaches the numbering: its first query raises on
  \<^verbatim>\<open>WorkOrder.order_number\<close>.
\<close>

lemma create_work_order_raises:
  "create_work_order d u today n db = Inl (AttributeError ''WorkOrder'' ''order_number'')"
  by (simp add: create_work_order_def missing_attribute_def)

lemmas order_number_eval = create_manufacturing_order_def generate_order_number_def
  like_prefix_def split_last_def int_of_str_def strip_def is_space_def is_digit_def
  digit_value_def parse_digits_def pad4_def digits.simps digit_char_def fits_integer_def
  max_def Let_def ex_mo_row_def ex_mo_request_def empty_db_def

text \<open>
  C7 as stated fails beyond the counter 9999. With \<^verbatim>\<open>MO-20240101-9999\<close> stored, the next
  creation stores \<^verbatim>\<open>MO-20240101-10000\<close>, whose counter has five digits. That string sorts
  below \<^verbatim>\<open>MO-20240101-9999\<close>, so the creation after it reads 9999 as the highest number
  again, generates \<^verbatim>\<open>MO-20240101-10000\<close> a second time and fails at the commit on the
  UNIQUE column: no further order can be created on that day.
\<close>

theorem order_number_overflow:
  "(case create_manufacturing_order (ex_mo_request 10) 7 ''20240101'' 9
           (empty_db\<lparr>manufacturing_orders := [ex_mo_row 1 ''MO-20240101-9999'']\<rparr>) of
      Inl e \<Rightarrow> False
    | Inr db' \<Rightarrow> map mo_order_number (manufacturing_orders db')
                   = [''MO-20240101-9999'', ''MO-20240101-10000''])
   \<and> create_manufacturing_order (ex_mo_request 10) 7 ''20240101'' 9
       (empty_db\<lparr>manufacturing_orders :=
          [ex_mo_row 1 ''MO-20240101-9999'', ex_mo_row 2 ''MO-20240101-10000'']\<rparr>)
     = Inl IntegrityError"
  by (simp add: order_number_eval)

text \<open>
  C7, amended, for the prefix MO (the handler of work orders raises before it numbers):
  the generator takes the greatest stored order number of the prefix and the day as a
  string, parses the integer after its last hyphen and adds one, or starts at 0001 when
  there is none. Let the greatest stored number have the counter \<open>m\<close> (\<open>m = 0\<close> when there
  is none) and let the requests come with fresh ids and quantities that fit the column.
  As long as the counter stays within 9999, the creations succeed one after the other and
  store \<^verbatim>\<open>MO-{YYYYMMDD}-{NNNN}\<close> for the counters \<open>m + 1\<close>, \<open>m + 2\<close>, ... in this order: each
  counter is written with exactly 4 digits and reads back as its number, and the stored
  strings are strictly increasing, so there is no gap and no duplicate. On a day without
  numbers the first one is 0001.
\<close>

theorem sequential_order_numbers:
  assumes "highest ''MO'' today (map mo_order_number (manufacturing_orders db)) m"
    and "m + length reqs \<le> 9999"
    and "distinct (map (\<lambda>(d, u, i). i) reqs)"
    and "\<forall>(d, u, i)\<in>set reqs. i \<notin> set (map mo_id (manufacturing_orders db))
            \<and> fits_integer (moc_quantity d)"
  shows "(\<exists>db'. create_orders today reqs db = Inr db'
            \<and> map mo_order_number (manufacturing_orders db')
                = map mo_order_number (manufacturing_orders db)
                  @ map (\<lambda>k. ''MO'' @ ''-'' @ today @ ''-'' @ pad4 k)
                      [Suc m..<Suc (m + length reqs)])
       \<and> (\<forall>k\<in>{Suc m..m + length reqs}.
             length (pad4 k) = 4 \<and> list_all is_digit (pad4 k) \<and> int_of_str (pad4 k) = Some k)
       \<and> sorted_wrt (<) (map (\<lambda>k. ''MO'' @ ''-'' @ today @ ''-'' @ pad4 k)
                           [Suc m..<Suc (m + length reqs)])
       \<and> (let matching = filter (like_prefix (''MO'' @ ''-'' @ today @ ''-''))
                            (map mo_order_number (manufacturing_orders db))
          in generate_order_number ''MO'' today (map mo_order_number (manufacturing_orders db))
             = (if matching = [] then Inr (''MO'' @ ''-'' @ today @ ''-'' @ ''0001'')
                else case int_of_str (split_last (Max (set matching))) of
                       None \<Rightarrow> Inl ValueError
                     | Some c \<Rightarrow> Inr (''MO'' @ ''-'' @ today @ ''-'' @ pad4 (c + 1))))"
proof -
  have ono: "(\<lambda>k. ''MO'' @ ''-'' @ today @ ''-'' @ pad4 k) = order_number_of ''MO'' today"
    by (simp add: order_number_of_def fun_eq_iff)
  have 1: "\<exists>db'. create_orders today reqs db = Inr db'
            \<and> map mo_order_number (manufacturing_orders db')
                = map mo_order_number (manufacturing_orders db)
                  @ map (order_number_of ''MO'' today) [Suc m..<Suc (m + length reqs)]"
    by (rule create_orders_numbers[OF assms])
  have 2: "\<forall>k\<in>{Suc m..m + length reqs}.
             length (pad4 k) = 4 \<and> list_all is_digit (pad4 k) \<and> int_of_str (pad4 k) = Some k"
    using assms(2) by (auto simp: length_pad4 pad4_props int_of_str_pad4)
  have 3: "sorted_wrt (<) (map (order_number_of ''MO'' today) [Suc m..<Suc (m + length reqs)])"
    unfolding sorted_wrt_map
  proof (rule sorted_wrt_mono_rel[of _ "(<)"])
    show "sorted_wrt (<) [Suc m..<Suc (m + length reqs)]" by (rule sorted_wrt_upt)
  next
    fix j k
    assume "j \<in> set [Suc m..<Suc (m + length reqs)]"
      "k \<in> set [Suc m..<Suc (m + length reqs)]" "j < k"
    with assms(2) show "order_number_of ''MO'' today j < order_number_of ''MO'' today k"
      by (intro order_number_of_less) auto
  qed
  let ?nums = "map mo_order_number (manufacturing_orders db)"
  let ?M = "filter (like_prefix (''MO'' @ ''-'' @ today @ ''-'')) ?nums"
  have 4: "generate_order_number ''MO'' today ?nums
             = (if ?M = [] then Inr (''MO'' @ ''-'' @ today @ ''-'' @ ''0001'')
                else case int_of_str (split_last (Max (set ?M))) of
                       None \<Rightarrow> Inl ValueError
                     | Some c \<Rightarrow> Inr (''MO'' @ ''-'' @ today @ ''-'' @ pad4 (c + 1)))"
  proof (cases "?M = []")
    case True
    then show ?thesis by (simp add: generate_order_number_def)
  next
    case False
    show ?thesis
      using generate_highest[OF False] False by (simp only: if_False)
  qed
  show ?thesis
    unfolding ono Let_def using 1 2 3 4 unfolding ono by blast
qed

text \<open>
  The scenario of the specification: with \<^verbatim>\<open>MO-20240101-0001\<close> stored, the first two
  creations of the next day get \<^verbatim>\<open>MO-20240102-0001\<close> and \<^verbatim>\<open>MO-20240102-0002\<close>. And with a
  gap in the stored counters, 0001 and 0005, the next number is 0006: the highest counter
  counts, not the number of stored orders.
\<close>

theorem sequential_order_numbers_witness:
  "(\<exists>db'. create_orders ''20240102''
             [(ex_mo_request 10, 7, 2), (ex_mo_request 20, 7, 3)]
             (empty_db\<lparr>manufacturing_orders := [ex_mo_row 1 ''MO-20240101-0001'']\<rparr>) = Inr db'
       \<and> map mo_order_number (manufacturing_orders db')
           = [''MO-20240101-0001'', ''MO-20240102-0001'', ''MO-20240102-0002''])
   \<and> (\<exists>db'. create_orders ''20240101'' [(ex_mo_request 10, 7, 3)]
             (empty_db\<lparr>manufacturing_orders :=
                [ex_mo_row 1 ''MO-20240101-0001'', ex_mo_row 2 ''MO-20240101-0005'']\<rparr>) = Inr db'
       \<and> map mo_order_number (manufacturing_orders db')
           = [''MO-20240101-0001'', ''MO-20240101-0005'', ''MO-20240101-0006''])"
proof -
  let ?a = "empty_db\<lparr>manufacturing_orders := [ex_mo_row 1 ''MO-20240101-0001'']\<rparr>"
  let ?b = "empty_db\<lparr>manufacturing_orders :=
              [ex_mo_row 1 ''MO-20240101-0001'', ex_mo_row 2 ''MO-20240101-0005'']\<rparr>"
  let ?ra = "[(ex_mo_request 10, 7 :: uuid, 2 :: uuid), (ex_mo_request 20, 7, 3)]"
  let ?rb = "[(ex_mo_request 10, 7 :: uuid, 3 :: uuid)]"
  have p2: "pad4 2 = ''0002''"
    and p5: "pad4 5 = ''0005''" and p6: "pad4 6 = ''0006''"
    by (simp_all add: pad4_def digits.simps digit_char_def numeral_3_eq_3)
  have ha: "highest ''MO'' ''20240102'' (map mo_order_number (manufacturing_orders ?a)) 0"
    by (simp add: highest_def like_prefix_def ex_mo_row_def empty_db_def)
  have na: "0 + length ?ra \<le> 9999"
    by simp
  have da: "distinct (map (\<lambda>(d, u, i). i) ?ra)"
    by simp
  have fa: "\<forall>(d, u, i)\<in>set ?ra. i \<notin> set (map mo_id (manufacturing_orders ?a))
              \<and> fits_integer (moc_quantity d)"
    by (simp add: fits_integer_def ex_mo_request_def ex_mo_row_def empty_db_def)
  have ua: "[Suc 0..<Suc (0 + length ?ra)] = [1, 2]"
    by (simp add: upt_rec)
  have ma: "map mo_order_number (manufacturing_orders ?a)
              @ map (\<lambda>k. ''MO'' @ ''-'' @ ''20240102'' @ ''-'' @ pad4 k) [1, 2]
            = [''MO-20240101-0001'', ''MO-20240102-0001'', ''MO-20240102-0002'']"
    by (simp add: pad4_1 p2 ex_mo_row_def empty_db_def)
  have a: "\<exists>db'. create_orders ''20240102'' ?ra ?a = Inr db'
       \<and> map mo_order_number (manufacturing_orders db')
           = [''MO-20240101-0001'', ''MO-20240102-0001'', ''MO-20240102-0002'']"
    using sequential_order_numbers [OF ha na da fa, THEN conjunct1] unfolding ua ma .
  have hb: "highest ''MO'' ''20240101'' (map mo_order_number (manufacturing_orders ?b)) 5"
    by (simp add: highest_def like_prefix_def order_number_of_def p5 ex_mo_row_def empty_db_def)
  have nb: "5 + length ?rb \<le> 9999"
    by simp
  have db: "distinct (map (\<lambda>(d, u, i). i) ?rb)"
    by simp
  have fb: "\<forall>(d, u, i)\<in>set ?rb. i \<notin> set (map mo_id (manufacturing_orders ?b))
              \<and> fits_integer (moc_quantity d)"
    by (simp add: fits_integer_def ex_mo_request_def ex_mo_row_def empty_db_def)
  have ub: "[Suc 5..<Suc (5 + length ?rb)] = [6]"
    by (simp add: upt_rec)
  have mb: "map mo_order_number (manufacturing_orders ?b)
              @ map (\<lambda>k. ''MO'' @ ''-'' @ ''20240101'' @ ''-'' @ pad4 k) [6]
            = [''MO-20240101-0001'', ''MO-20240101-0005'', ''MO-20240101-0006'']"
    by (simp add: p6 ex_mo_row_def empty_db_def)
  have b: "\<exists>db'. create_orders ''20240101'' ?rb ?b = Inr db'
       \<and> map mo_order_number (manufacturing_orders db')
           = [''MO-20240101-0001'', ''MO-20240101-0005'', ''MO-20240101-0006'']"
    using sequential_order_numbers [OF hb nb db fb, THEN conjunct1] unfolding ub mb .
  from a b show ?thesis
    by (rule conjI)
qed

end
